theory Spec2Isabelle
  imports Main
begin

section \<open>The structured log recorder of \<open>src/core/logger.core.js\<close>\<close>

text \<open>
  The class \<open>Logger\<close> is embedded function by function. A JavaScript string is the
  \<open>string\<close> of the bytes of its text in UTF-8, so that the length of what is appended
  to a file is the number of bytes \<open>fs.statSync(file).size\<close> counts. Where the source
  looks at characters (the regular expressions, \<open>trim\<close>), the bytes are first grouped
  into the characters they encode. Every effect of the class (counters, files,
  directories, the two console streams) is a field of an explicit \<open>world\<close> that each
  operation takes and returns; a \<open>throw\<close> is the \<open>Inl\<close> branch of a sum.
\<close>

subsection \<open>Strings\<close>

definition NL :: char where
  "NL = CHR 0x0A"

definition ESC :: char where
  "ESC = CHR 0x1B"

text \<open>
  The characters of a text: each is a byte and the continuation bytes (\<open>10xxxxxx\<close>)
  that follow it. On well-formed UTF-8 these are the code points; no byte is lost.
\<close>

definition is_cont :: "char \<Rightarrow> bool" where
  "is_cont c = (128 \<le> (of_char c :: nat) \<and> (of_char c :: nat) < 192)"

function chars_of :: "string \<Rightarrow> string list" where
  "chars_of [] = []"
| "chars_of (c # cs) = (c # takeWhile is_cont cs) # chars_of (dropWhile is_cont cs)"
  by pat_completeness auto
termination
  by (relation "measure length") (auto simp: length_dropWhile_le le_imp_less_Suc)

text \<open>
  White space and line terminators of ECMAScript, as encoded characters: what \<open>\s\<close>
  matches and what \<open>String.prototype.trim\<close> removes. They are U+0009 to U+000D, U+0020,
  U+00A0, U+1680, U+2000 to U+200A, U+2028, U+2029, U+202F, U+205F, U+3000 and U+FEFF.
\<close>

definition white_space :: "string list" where
  "white_space =
     [[CHR 0x09], [CHR 0x0A], [CHR 0x0B], [CHR 0x0C], [CHR 0x0D], [CHR 0x20],
      [CHR 0xC2, CHR 0xA0], [CHR 0xE1, CHR 0x9A, CHR 0x80],
      [CHR 0xE2, CHR 0x80, CHR 0x80], [CHR 0xE2, CHR 0x80, CHR 0x81], [CHR 0xE2, CHR 0x80, CHR 0x82],
      [CHR 0xE2, CHR 0x80, CHR 0x83], [CHR 0xE2, CHR 0x80, CHR 0x84], [CHR 0xE2, CHR 0x80, CHR 0x85],
      [CHR 0xE2, CHR 0x80, CHR 0x86], [CHR 0xE2, CHR 0x80, CHR 0x87], [CHR 0xE2, CHR 0x80, CHR 0x88],
      [CHR 0xE2, CHR 0x80, CHR 0x89], [CHR 0xE2, CHR 0x80, CHR 0x8A],
      [CHR 0xE2, CHR 0x80, CHR 0xA8], [CHR 0xE2, CHR 0x80, CHR 0xA9], [CHR 0xE2, CHR 0x80, CHR 0xAF],
      [CHR 0xE2, CHR 0x81, CHR 0x9F], [CHR 0xE3, CHR 0x80, CHR 0x80], [CHR 0xEF, CHR 0xBB, CHR 0xBF]]"

definition is_space :: "string \<Rightarrow> bool" where
  "is_space u = (u \<in> set white_space)"

text \<open>The line terminators, U+000A, U+000D, U+2028 and U+2029: what \<open>.\<close> does not match.\<close>

definition is_line_terminator :: "string \<Rightarrow> bool" where
  "is_line_terminator u =
     (u \<in> set [[CHR 0x0A], [CHR 0x0D], [CHR 0xE2, CHR 0x80, CHR 0xA8], [CHR 0xE2, CHR 0x80, CHR 0xA9]])"

definition is_digit :: "string \<Rightarrow> bool" where
  "is_digit u = (u \<in> set (map (\<lambda>c. [c]) ''0123456789''))"

definition trim :: "string \<Rightarrow> string" where
  "trim s = concat (rev (dropWhile is_space (rev (dropWhile is_space (chars_of s)))))"

text \<open>\<open>s.split('\n')\<close>: the pieces between the newlines, at least one piece.\<close>

fun split_nl :: "string \<Rightarrow> string list" where
  "split_nl [] = [[]]"
| "split_nl (c # cs) =
     (if c = NL then [] # split_nl cs
      else (case split_nl cs of [] \<Rightarrow> [[c]] | l # ls \<Rightarrow> (c # l) # ls))"

text \<open>\<open>lines.join('\n')\<close>.\<close>

fun join_nl :: "string list \<Rightarrow> string" where
  "join_nl [] = []"
| "join_nl [l] = l"
| "join_nl (l # ls) = l @ NL # join_nl ls"

text \<open>\<open>String(n)\<close> for a natural number: its decimal digits.\<close>

definition digit_char :: "nat \<Rightarrow> char" where
  "digit_char d = char_of (48 + d)"

fun show_nat :: "nat \<Rightarrow> string" where
  "show_nat n = (if n < 10 then [digit_char n] else show_nat (n div 10) @ [digit_char (n mod 10)])"

declare show_nat.simps [simp del]

definition show_int :: "int \<Rightarrow> string" where
  "show_int i = (if i < 0 then CHR ''-'' # show_nat (nat (- i)) else show_nat (nat i))"

text \<open>\<open>s.padStart(n, '0')\<close>.\<close>

definition padStart0 :: "nat \<Rightarrow> string \<Rightarrow> string" where
  "padStart0 n s = replicate (n - length s) CHR ''0'' @ s"

subsection \<open>The two regular expressions of \<open>parseStack\<close>\<close>

text \<open>
  Both expressions are sequences of literal characters and of one-or-more repetitions
  of a character class, some of them capture groups, the first group of the first
  expression lazy. \<open>rmatch\<close> is the backtracking matcher of ECMAScript on such a
  sequence, on the characters of its input and anchored at their start: a greedy
  repetition tries the longest run first, a lazy one the shortest, and the first choice
  under which the rest of the expression matches is taken. It returns the captured
  groups in order, each the characters it holds. \<open>rsearch\<close> is
  \<open>String.prototype.match\<close> without the global flag: the match at the leftmost position
  that has one. (The source matches code units; where a character is two of them,
  none of the items of the two expressions can match between the two.)
\<close>

datatype cclass = WS | DOT | DIGIT

fun in_class :: "cclass \<Rightarrow> string \<Rightarrow> bool" where
  "in_class WS u = is_space u"
| "in_class DOT u = (\<not> is_line_terminator u)"
| "in_class DIGIT u = is_digit u"

datatype ritem = Lit char | Rep cclass | Cap bool cclass

definition span :: "cclass \<Rightarrow> string list \<Rightarrow> nat" where
  "span cl s = length (takeWhile (in_class cl) s)"

primrec first_some :: "(nat \<Rightarrow> 'a option) \<Rightarrow> nat list \<Rightarrow> 'a option" where
  "first_some f [] = None"
| "first_some f (k # ks) = (case f k of Some r \<Rightarrow> Some r | None \<Rightarrow> first_some f ks)"

definition tries :: "bool \<Rightarrow> nat \<Rightarrow> nat list" where
  "tries greedy n = (if greedy then rev [1..<Suc n] else [1..<Suc n])"

primrec rmatch :: "ritem list \<Rightarrow> string list \<Rightarrow> string list list option" where
  "rmatch [] s = Some []"
| "rmatch (it # r) s =
     (case it of
        Lit c \<Rightarrow> (case s of [] \<Rightarrow> None | x # xs \<Rightarrow> if x = [c] then rmatch r xs else None)
      | Rep cl \<Rightarrow> first_some (\<lambda>k. rmatch r (drop k s)) (tries True (span cl s))
      | Cap greedy cl \<Rightarrow>
          first_some (\<lambda>k. map_option ((#) (take k s)) (rmatch r (drop k s)))
            (tries greedy (span cl s)))"

fun rsearch :: "ritem list \<Rightarrow> string list \<Rightarrow> string list list option" where
  "rsearch r [] = rmatch r []"
| "rsearch r (x # xs) = (case rmatch r (x # xs) of Some g \<Rightarrow> Some g | None \<Rightarrow> rsearch r xs)"

text \<open>\<open>/at\s+(.+?)\s+\((.+):(\d+):(\d+)\)/\<close>\<close>

definition frame_regex :: "ritem list" where
  "frame_regex =
     [Lit CHR ''a'', Lit CHR ''t'', Rep WS, Cap False DOT, Rep WS, Lit CHR ''('',
      Cap True DOT, Lit CHR '':'', Cap True DIGIT, Lit CHR '':'', Cap True DIGIT, Lit CHR '')'']"

text \<open>\<open>/at\s+(.+):(\d+):(\d+)/\<close>\<close>

definition anonymous_regex :: "ritem list" where
  "anonymous_regex =
     [Lit CHR ''a'', Lit CHR ''t'', Rep WS, Cap True DOT, Lit CHR '':'', Cap True DIGIT,
      Lit CHR '':'', Cap True DIGIT]"

subsection \<open>Stack parsing and formatting\<close>

text \<open>An element of the array \<open>parseStack\<close> returns: an object with the four frame
  properties, or an object with the property \<open>raw\<close> only.\<close>

datatype entry =
    Frame (frame_function: string) (frame_file: string) (frame_line: string) (frame_column: string)
  | Raw (raw_text: string)

text \<open>
  The callback of \<open>lines.map\<close>. The array a match returns holds the matched text and
  the groups, so its length is 5 for the first expression and 4 for the second.
\<close>

definition parseLine :: "string \<Rightarrow> entry" where
  "parseLine l =
     (case (case rsearch frame_regex (chars_of l) of
              Some m \<Rightarrow> Some m
            | None \<Rightarrow> rsearch anonymous_regex (chars_of l)) of
        Some m \<Rightarrow>
          (if Suc (length m) = 5
           then Frame (trim (concat (m ! 0))) (concat (m ! 1)) (concat (m ! 2)) (concat (m ! 3))
           else Frame ''anonymous'' (concat (m ! 0)) (concat (m ! 1)) (concat (m ! 2)))
      | None \<Rightarrow> Raw (trim l))"

text \<open>The callback of \<open>filter\<close>: \<open>item.file || item.raw\<close>, a string being truthy when
  it is not empty and an absent property being falsy.\<close>

fun kept :: "entry \<Rightarrow> bool" where
  "kept (Frame f fi ln c) = (fi \<noteq> [])"
| "kept (Raw r) = (r \<noteq> [])"

text \<open>The stack is \<open>None\<close> for \<open>null\<close> and \<open>undefined\<close>; these and the empty string are
  falsy.\<close>

definition parseStack :: "string option \<Rightarrow> entry list" where
  "parseStack stack =
     (case stack of
        None \<Rightarrow> []
      | Some s \<Rightarrow> if s = [] then [] else filter kept (map parseLine (tl (split_nl s))))"

definition bold :: "string \<Rightarrow> string" where
  "bold text = ESC # ''[1m'' @ text @ ESC # ''[0m''"

definition dim :: "string \<Rightarrow> string" where
  "dim text = ESC # ''[2m'' @ text @ ESC # ''[0m''"

text \<open>The arrow of the source, U+2192, as its three bytes.\<close>

definition arrow :: string where
  "arrow = [CHR 0xE2, CHR 0x86, CHR 0x92]"

text \<open>The callback of \<open>parsed.map\<close>. An entry without raw text takes the second branch,
  where an absent property prints as \<open>undefined\<close> (no such entry passes the filter of
  \<open>parseStack\<close>).\<close>

definition formatFrame :: "bool \<Rightarrow> string \<Rightarrow> string \<Rightarrow> string \<Rightarrow> string \<Rightarrow> string" where
  "formatFrame forConsole f fi ln c =
     (let funcName = (if f \<noteq> [] then f else ''anonymous'');
          location = fi @ '':'' @ ln @ '':'' @ c;
          prefix = (if forConsole then dim (''  '' @ arrow) else ''  '' @ arrow);
          formattedFunc = (if forConsole then bold funcName else funcName);
          formattedLoc = (if forConsole then dim location else location)
      in prefix @ '' '' @ formattedFunc @ '' ('' @ formattedLoc @ '')'')"

fun formatEntry :: "bool \<Rightarrow> entry \<Rightarrow> string" where
  "formatEntry forConsole (Raw r) =
     (if r \<noteq> [] then (if forConsole then dim (''  '' @ r) else ''  '' @ r)
      else formatFrame forConsole [] ''undefined'' ''undefined'' ''undefined'')"
| "formatEntry forConsole (Frame f fi ln c) = formatFrame forConsole f fi ln c"

definition formatStack :: "string option \<Rightarrow> bool \<Rightarrow> string" where
  "formatStack stack forConsole =
     (let parsed = parseStack stack
      in if parsed = [] then [] else NL # join_nl (map (formatEntry forConsole) parsed))"

subsection \<open>Values, errors and options\<close>

text \<open>
  The values a caller passes as message, context or table data: primitives, arrays and
  plain objects, without cycles. \<open>JNum\<close> holds the integral numbers of the safe
  range, which \<open>String\<close> prints in decimal digits.
\<close>

datatype jsval =
    JUndefined | JNull | JBool bool | JNum int | JBigInt int | JStr string
  | JArr "jsval list" | JObj "(string \<times> jsval) list"

text \<open>An instance of \<open>Error\<close>, with the four properties the logger reads.\<close>

record error_obj =
  err_message :: string
  err_name :: string
  err_stack :: "string option"
  err_code :: jsval

text \<open>The second argument of a log call: \<open>err instanceof Error\<close> or any other value.\<close>

datatype payload = ErrorObject error_obj | Value jsval

text \<open>The options object: \<open>context\<close> (\<open>JUndefined\<close> when absent) and the truthiness of
  \<open>trace\<close> and of \<open>noThrow\<close>.\<close>

record options =
  opt_context :: jsval
  opt_trace :: bool
  opt_noThrow :: bool

definition no_options :: options where
  "no_options = \<lparr>opt_context = JUndefined, opt_trace = False, opt_noThrow = False\<rparr>"

fun truthy :: "jsval \<Rightarrow> bool" where
  "truthy JUndefined = False"
| "truthy JNull = False"
| "truthy (JBool b) = b"
| "truthy (JNum n) = (n \<noteq> 0)"
| "truthy (JBigInt n) = (n \<noteq> 0)"
| "truthy (JStr s) = (s \<noteq> [])"
| "truthy (JArr xs) = True"
| "truthy (JObj kvs) = True"

fun join_comma :: "string list \<Rightarrow> string" where
  "join_comma [] = []"
| "join_comma [l] = l"
| "join_comma (l # ls) = l @ CHR '','' # join_comma ls"

text \<open>\<open>String(value)\<close>.\<close>

fun js_String :: "jsval \<Rightarrow> string" where
  "js_String JUndefined = ''undefined''"
| "js_String JNull = ''null''"
| "js_String (JBool b) = (if b then ''true'' else ''false'')"
| "js_String (JNum n) = show_int n"
| "js_String (JBigInt n) = show_int n"
| "js_String (JStr s) = s"
| "js_String (JArr xs) =
     join_comma (map (\<lambda>x. if x = JUndefined \<or> x = JNull then [] else js_String x) xs)"
| "js_String (JObj kvs) = ''[object Object]''"

text \<open>\<open>JSON.stringify\<close> throws a \<open>TypeError\<close> on a value that holds a \<open>BigInt\<close>.\<close>

fun has_bigint :: "jsval \<Rightarrow> bool" where
  "has_bigint (JBigInt n) = True"
| "has_bigint (JArr xs) = (\<exists>x \<in> set xs. has_bigint x)"
| "has_bigint (JObj kvs) = (\<exists>x \<in> set (map snd kvs). has_bigint x)"
| "has_bigint v = False"

subsection \<open>Configuration, clock and world\<close>

text \<open>
  What the logger takes from outside: the flag \<open>config.app.production\<close>, the directory
  \<open>LOG_DIR\<close>, and four library functions that stay parameters: \<open>util.inspect\<close> with
  the options of \<open>formatValue\<close> (\<open>None\<close> when it throws), the text
  \<open>JSON.stringify(data, null, 2)\<close> returns when it returns, the \<open>stack\<close> property of
  an \<open>Error\<close> constructed inside the logger, from its message, and
  \<open>String.prototype.toUpperCase\<close> on the strings that are not ASCII.
\<close>

record env =
  production :: bool
  LOG_DIR :: string
  inspect :: "jsval \<Rightarrow> string option"
  json_text :: "jsval \<Rightarrow> string"
  captureStack :: "string \<Rightarrow> string option"
  upperCase :: "string \<Rightarrow> string"

text \<open>\<open>toUpperCase\<close>: on an ASCII string the letters \<open>a\<close> to \<open>z\<close> become \<open>A\<close> to \<open>Z\<close>;
  any other string is left to the library.\<close>

definition upper_char :: "char \<Rightarrow> char" where
  "upper_char c =
     (let n = (of_char c :: nat) in if 97 \<le> n \<and> n \<le> 122 then char_of (n - 32) else c)"

definition is_ascii :: "string \<Rightarrow> bool" where
  "is_ascii s = list_all (\<lambda>c. (of_char c :: nat) < 128) s"

definition toUpperCase :: "env \<Rightarrow> string \<Rightarrow> string" where
  "toUpperCase e s = (if is_ascii s then map upper_char s else upperCase e s)"

text \<open>One reading of the clock: the local-time fields \<open>timestamp\<close> reads, the first ten
  characters of \<open>toISOString()\<close>, and \<open>Date.now()\<close>. The clock does not move during one
  call of the logger.\<close>

record date =
  fullYear :: nat
  month :: nat
  dayOfMonth :: nat
  hours :: nat
  minutes :: nat
  seconds :: nat
  milliseconds :: nat
  isoDate :: string
  epochMillis :: nat

datatype severity = Info | Debug | Log | Warning | Error | All

fun sev_name :: "severity \<Rightarrow> string" where
  "sev_name Info = ''info''"
| "sev_name Debug = ''debug''"
| "sev_name Log = ''log''"
| "sev_name Warning = ''warning''"
| "sev_name Error = ''error''"
| "sev_name All = ''all''"

datatype console_event = ConsoleLog string | ConsoleTable jsval

datatype fs_event = Mkdir string | Rename string string | Append string string

text \<open>
  The state the logger reads and writes: its counters, the regular files (path to
  content) and the directories with the size \<open>statSync\<close> reports for each, what
  \<open>console.log\<close> and \<open>console.table\<close> printed, the lines \<open>console.error\<close> printed, and
  the clock. \<open>faults\<close> says which of the coming calls of \<open>mkdirSync\<close>, \<open>statSync\<close>,
  \<open>renameSync\<close> and \<open>appendFileSync\<close> fail: each call takes the head, \<open>Some m\<close> making
  it throw an error with the message \<open>m\<close>, and no call fails once the list is empty.
  \<open>oplog\<close> lists the changes made to the file system. The counters are natural
  numbers: the numbers of the source count exactly below \<open>2^53\<close>.
\<close>

record world =
  logStats :: "severity \<Rightarrow> nat"
  files :: "string \<rightharpoonup> string"
  dirs :: "string set"
  dirSize :: "string \<Rightarrow> nat"
  stdout :: "console_event list"
  stderr :: "string list"
  clock :: date
  faults :: "string option list"
  oplog :: "fs_event list"

subsection \<open>Computations that may throw\<close>

definition io_return :: "'a \<Rightarrow> world \<Rightarrow> ('e + 'a) \<times> world" where
  "io_return x w = (Inr x, w)"

definition io_bind ::
  "(world \<Rightarrow> ('e + 'a) \<times> world) \<Rightarrow> ('a \<Rightarrow> world \<Rightarrow> ('e + 'b) \<times> world) \<Rightarrow> world \<Rightarrow> ('e + 'b) \<times> world" where
  "io_bind m f w = (case m w of (Inl e, w') \<Rightarrow> (Inl e, w') | (Inr x, w') \<Rightarrow> f x w')"

text \<open>\<open>try { m } catch (err) { h err }\<close>\<close>

definition io_catch ::
  "(world \<Rightarrow> ('e + 'a) \<times> world) \<Rightarrow> ('e \<Rightarrow> world \<Rightarrow> ('f + 'a) \<times> world) \<Rightarrow> world \<Rightarrow> ('f + 'a) \<times> world" where
  "io_catch m h w = (case m w of (Inl e, w') \<Rightarrow> h e w' | (Inr x, w') \<Rightarrow> (Inr x, w'))"

text \<open>\<open>try { m } finally { fin }\<close>: \<open>fin\<close> runs however \<open>m\<close> ends; what \<open>fin\<close> throws
  replaces the outcome of \<open>m\<close>.\<close>

definition io_finally ::
  "(world \<Rightarrow> ('e + 'a) \<times> world) \<Rightarrow> (world \<Rightarrow> ('e + unit) \<times> world) \<Rightarrow> world \<Rightarrow> ('e + 'a) \<times> world" where
  "io_finally m fin w =
     (case m w of (r, w') \<Rightarrow>
        (case fin w' of (Inl e, w'') \<Rightarrow> (Inl e, w'') | (Inr u, w'') \<Rightarrow> (r, w'')))"

subsection \<open>The file system\<close>

definition next_fault :: "world \<Rightarrow> string option \<times> world" where
  "next_fault w = (case faults w of [] \<Rightarrow> (None, w) | f # fs \<Rightarrow> (f, w\<lparr>faults := fs\<rparr>))"

definition existsSync :: "string \<Rightarrow> world \<Rightarrow> bool" where
  "existsSync p w = (p \<in> dirs w \<or> files w p \<noteq> None)"

definition mkdirSync :: "string \<Rightarrow> world \<Rightarrow> (string + unit) \<times> world" where
  "mkdirSync p w =
     (case next_fault w of
        (Some m, w') \<Rightarrow> (Inl m, w')
      | (None, w') \<Rightarrow> (Inr (), w'\<lparr>dirs := insert p (dirs w'), oplog := oplog w' @ [Mkdir p]\<rparr>))"

text \<open>A path in the quotes of the messages of Node.\<close>

definition quoted :: "string \<Rightarrow> string" where
  "quoted p = CHR 0x27 # p @ [CHR 0x27]"

text \<open>The size of a regular file is the length of its content; a directory has the
  size the world gives it; nothing else has a size.\<close>

definition statSync_size :: "string \<Rightarrow> world \<Rightarrow> (string + nat) \<times> world" where
  "statSync_size p w =
     (case next_fault w of
        (Some m, w') \<Rightarrow> (Inl m, w')
      | (None, w') \<Rightarrow>
          (case files w' p of
             Some c \<Rightarrow> (Inr (length c), w')
           | None \<Rightarrow>
               if p \<in> dirs w' then (Inr (dirSize w' p), w')
               else (Inl (''ENOENT: no such file or directory, stat '' @ quoted p), w')))"

text \<open>
  Renaming a regular file moves its content. Renaming a directory moves the directory
  and what is under it: \<open>moved_from old new q\<close> is the path that becomes \<open>q\<close>, when
  \<open>q\<close> is \<open>new\<close> or under it, and \<open>path_under old q\<close> says that \<open>q\<close> is \<open>old\<close> or under it.
\<close>

definition path_under :: "string \<Rightarrow> string \<Rightarrow> bool" where
  "path_under d q = (q = d \<or> take (Suc (length d)) q = d @ ''/'')"

definition moved_from :: "string \<Rightarrow> string \<Rightarrow> string \<Rightarrow> string option" where
  "moved_from old new q = (if path_under new q then Some (old @ drop (length new) q) else None)"

definition renameSync :: "string \<Rightarrow> string \<Rightarrow> world \<Rightarrow> (string + unit) \<times> world" where
  "renameSync old new w =
     (case next_fault w of
        (Some m, w') \<Rightarrow> (Inl m, w')
      | (None, w') \<Rightarrow>
          (case files w' old of
             Some c \<Rightarrow>
               (Inr (), w'\<lparr>files := ((files w')(old := None))(new \<mapsto> c),
                            oplog := oplog w' @ [Rename old new]\<rparr>)
           | None \<Rightarrow>
               if old \<in> dirs w'
               then (Inr (),
                     w'\<lparr>files := (\<lambda>q. case moved_from old new q of
                                         Some p \<Rightarrow> files w' p
                                       | None \<Rightarrow> if path_under old q then None else files w' q),
                         dirs := {q. case moved_from old new q of
                                       Some p \<Rightarrow> p \<in> dirs w'
                                     | None \<Rightarrow> \<not> path_under old q \<and> q \<in> dirs w'},
                         dirSize := (\<lambda>q. case moved_from old new q of
                                           Some p \<Rightarrow> dirSize w' p
                                         | None \<Rightarrow> dirSize w' q),
                         oplog := oplog w' @ [Rename old new]\<rparr>)
               else (Inl (''ENOENT: no such file or directory, rename '' @ quoted old @ '' -> '' @ quoted new),
                     w')))"

definition appendFileSync :: "string \<Rightarrow> string \<Rightarrow> world \<Rightarrow> (string + unit) \<times> world" where
  "appendFileSync p data w =
     (case next_fault w of
        (Some m, w') \<Rightarrow> (Inl m, w')
      | (None, w') \<Rightarrow>
          (if p \<in> dirs w'
           then (Inl (''EISDIR: illegal operation on a directory, open '' @ quoted p), w')
           else (Inr (), w'\<lparr>files := (files w')(p \<mapsto> (case files w' p of None \<Rightarrow> [] | Some c \<Rightarrow> c) @ data),
                             oplog := oplog w' @ [Append p data]\<rparr>)))"

text \<open>\<open>path.join\<close> of two segments that need no normalising.\<close>

definition path_join :: "string \<Rightarrow> string \<Rightarrow> string" where
  "path_join a b = a @ ''/'' @ b"

subsection \<open>The logger\<close>

definition MAX_LOG_SIZE :: nat where
  "MAX_LOG_SIZE = 10 * 1024 * 1024"

fun colorize :: "severity \<Rightarrow> string \<Rightarrow> string" where
  "colorize Info text = ESC # ''[36m'' @ text @ ESC # ''[0m''"
| "colorize Debug text = ESC # ''[35m'' @ text @ ESC # ''[0m''"
| "colorize Log text = ESC # ''[37m'' @ text @ ESC # ''[0m''"
| "colorize Warning text = ESC # ''[33m'' @ text @ ESC # ''[0m''"
| "colorize Error text = ESC # ''[31m'' @ text @ ESC # ''[0m''"
| "colorize All text = ESC # ''[34m'' @ text @ ESC # ''[0m''"

definition timestamp :: "world \<Rightarrow> string" where
  "timestamp w =
     (let d = clock w;
          pad = (\<lambda>n. padStart0 2 (show_nat n));
          ms = padStart0 3 (show_nat (milliseconds d))
      in show_nat (fullYear d) @ ''-'' @ pad (month d + 1) @ ''-'' @ pad (dayOfMonth d) @ '' ''
         @ pad (hours d) @ '':'' @ pad (minutes d) @ '':'' @ pad (seconds d) @ ''.'' @ ms)"

definition todayDir :: "env \<Rightarrow> world \<Rightarrow> (string + string) \<times> world" where
  "todayDir e w =
     (let dir = path_join (LOG_DIR e) (isoDate (clock w))
      in if \<not> existsSync dir w then io_bind (mkdirSync dir) (\<lambda>u. io_return dir) w
         else io_return dir w)"

text \<open>The block of the \<open>try\<close> in \<open>writeToFile\<close>.\<close>

definition writeToFile_try :: "env \<Rightarrow> string \<Rightarrow> string \<Rightarrow> world \<Rightarrow> (string + unit) \<times> world" where
  "writeToFile_try e type message =
     io_bind (todayDir e) (\<lambda>d.
       let file = path_join d (type @ ''.log'')
       in io_bind
            (\<lambda>w. if existsSync file w
                 then io_bind (statSync_size file) (\<lambda>size w'.
                        if size > MAX_LOG_SIZE
                        then (let timestamp = epochMillis (clock w')
                              in io_bind (todayDir e) (\<lambda>d'.
                                   let rotatedFile = path_join d' (type @ ''.'' @ show_nat timestamp @ ''.log'')
                                   in renameSync file rotatedFile) w')
                        else io_return () w') w
                 else io_return () w)
            (\<lambda>u. appendFileSync file (message @ [NL])))"

text \<open>The handler of the \<open>catch\<close>: \<open>console.error('Failed to write log:', err.message)\<close>.\<close>

definition report_failure :: "string \<Rightarrow> world \<Rightarrow> world" where
  "report_failure message w = w\<lparr>stderr := stderr w @ [''Failed to write log: '' @ message]\<rparr>"

text \<open>\<open>writeToFile\<close>: the block and the handler.\<close>

definition writeToFile :: "env \<Rightarrow> string \<Rightarrow> string \<Rightarrow> world \<Rightarrow> (payload + unit) \<times> world" where
  "writeToFile e type message =
     io_catch (writeToFile_try e type message) (\<lambda>err w. io_return () (report_failure err w))"

text \<open>\<open>formatValue\<close>: \<open>typeof value === 'object'\<close> holds of arrays and plain objects.\<close>

definition formatValue :: "env \<Rightarrow> jsval \<Rightarrow> string" where
  "formatValue e v =
     (case v of
        JNull \<Rightarrow> ''null''
      | JUndefined \<Rightarrow> ''undefined''
      | JArr xs \<Rightarrow> (case inspect e v of Some s \<Rightarrow> s | None \<Rightarrow> ''[Circular or Invalid Object]'')
      | JObj kvs \<Rightarrow> (case inspect e v of Some s \<Rightarrow> s | None \<Rightarrow> ''[Circular or Invalid Object]'')
      | _ \<Rightarrow> js_String v)"

text \<open>What \<open>extractErrorInfo\<close> returns, as far as \<open>record\<close> reads it; an absent property
  is \<open>None\<close> (\<open>JUndefined\<close> for the code).\<close>

record error_info =
  info_message :: string
  info_name :: "string option"
  info_stack :: "string option"
  info_code :: jsval

definition extractErrorInfo :: "payload \<Rightarrow> error_info" where
  "extractErrorInfo err =
     (case err of
        ErrorObject x \<Rightarrow>
          \<lparr>info_message = err_message x, info_name = Some (err_name x),
           info_stack = err_stack x, info_code = err_code x\<rparr>
      | Value v \<Rightarrow>
          \<lparr>info_message = js_String v, info_name = None, info_stack = None, info_code = JUndefined\<rparr>)"

text \<open>\<open>new Error(v)\<close>: the message is empty for \<open>undefined\<close> and \<open>String(v)\<close> otherwise.\<close>

definition new_Error :: "env \<Rightarrow> jsval \<Rightarrow> error_obj" where
  "new_Error e v =
     (let msg = (if v = JUndefined then [] else js_String v)
      in \<lparr>err_message = msg, err_name = ''Error'', err_stack = captureStack e msg,
          err_code = JUndefined\<rparr>)"

definition console_log :: "string \<Rightarrow> world \<Rightarrow> world" where
  "console_log s w = w\<lparr>stdout := stdout w @ [ConsoleLog s]\<rparr>"

text \<open>
  \<open>record(type, layer, err, options)\<close>. The public methods carry the name of the class,
  since \<open>record\<close>, \<open>set\<close>, \<open>all\<close> and \<open>log\<close> are taken. The three parts of the message
  are built by \<open>with_context\<close>, \<open>with_error_tag\<close> and \<open>with_stack\<close>, each on the pair of
  the console message and the file message.
\<close>

definition with_context :: "env \<Rightarrow> options \<Rightarrow> string \<times> string \<Rightarrow> string \<times> string" where
  "with_context e opts msgs =
     (case msgs of (consoleMessage, fileMessage) \<Rightarrow>
        if truthy (opt_context opts)
        then (let contextStr = formatValue e (opt_context opts)
              in (consoleMessage @ NL # dim ''Context:'' @ '' '' @ contextStr,
                  fileMessage @ NL # ''Context: '' @ contextStr))
        else (consoleMessage, fileMessage))"

definition with_error_tag ::
  "severity \<Rightarrow> error_info \<Rightarrow> string \<Rightarrow> string \<Rightarrow> string \<times> string \<Rightarrow> string \<times> string" where
  "with_error_tag type errorInfo header headerBold msgs =
     (case info_name errorInfo of
        Some name \<Rightarrow>
          if type = Error \<and> name \<noteq> []
          then (let errorType = ''['' @ name @ '']'';
                    rawMessage = info_message errorInfo;
                    consoleMessage = headerBold @ '' '' @ colorize Error errorType @ '' | '' @ rawMessage;
                    fileMessage = header @ '' '' @ errorType @ '' | '' @ rawMessage
                in if truthy (info_code errorInfo)
                   then (consoleMessage @ NL # dim ''Code:'' @ '' '' @ js_String (info_code errorInfo),
                         fileMessage @ NL # ''Code: '' @ js_String (info_code errorInfo))
                   else (consoleMessage, fileMessage))
          else msgs
      | None \<Rightarrow> msgs)"

definition with_stack ::
  "severity \<Rightarrow> error_info \<Rightarrow> options \<Rightarrow> string \<times> string \<Rightarrow> string \<times> string" where
  "with_stack type errorInfo opts msgs =
     (case msgs of (consoleMessage, fileMessage) \<Rightarrow>
        if info_stack errorInfo \<noteq> None \<and> info_stack errorInfo \<noteq> Some [] \<and> (type = Error \<or> opt_trace opts)
        then (let stackForConsole = formatStack (info_stack errorInfo) True;
                  stackForFile = formatStack (info_stack errorInfo) False
              in if stackForConsole \<noteq> []
                 then (consoleMessage @ colorize type stackForConsole, fileMessage @ stackForFile)
                 else (consoleMessage, fileMessage))
        else (consoleMessage, fileMessage))"

text \<open>The two messages \<open>record\<close> has built when it reaches its first write.\<close>

definition messages ::
  "env \<Rightarrow> severity \<Rightarrow> string \<Rightarrow> payload \<Rightarrow> options \<Rightarrow> world \<Rightarrow> string \<times> string" where
  "messages e type layer err opts w =
     (let errorInfo = extractErrorInfo err;
          rawMessage = info_message errorInfo;
          header = timestamp w @ '' | '' @ toUpperCase e (sev_name type) @ '' | '' @ toUpperCase e layer;
          headerBold = bold header
      in with_stack type errorInfo opts
           (with_error_tag type errorInfo header headerBold
              (with_context e opts (headerBold @ '' | '' @ rawMessage, header @ '' | '' @ rawMessage))))"

text \<open>The first statement of \<open>record\<close>: \<open>this.logStats[type] = (this.logStats[type] || 0) + 1\<close>.\<close>

definition count_entry :: "severity \<Rightarrow> world \<Rightarrow> world" where
  "count_entry type w = w\<lparr>logStats := (logStats w)(type := logStats w type + 1)\<rparr>"

definition Logger_record ::
  "env \<Rightarrow> severity \<Rightarrow> string \<Rightarrow> payload \<Rightarrow> options \<Rightarrow> world \<Rightarrow> (payload + unit) \<times> world" where
  "Logger_record e type layer err opts w0 =
     (let w = count_entry type w0;
          consoleMessage = fst (messages e type layer err opts w);
          fileMessage = snd (messages e type layer err opts w)
      in io_bind (writeToFile e (sev_name type) fileMessage) (\<lambda>u.
         io_bind (writeToFile e ''all'' fileMessage) (\<lambda>u.
         io_bind (\<lambda>w'. let shouldLog = (\<not> production e \<or> \<not> (type = Error \<or> type = Warning))
                       in io_return () (if shouldLog then console_log (colorize type consoleMessage) w' else w')) (\<lambda>u w'.
           if \<not> production e \<and> type = Error \<and> \<not> opt_noThrow opts
           then (Inl (case err of ErrorObject x \<Rightarrow> err | Value v \<Rightarrow> ErrorObject (new_Error e v)), w')
           else io_return () w'))) w)"

definition Logger_info :: "env \<Rightarrow> string \<Rightarrow> payload \<Rightarrow> options \<Rightarrow> world \<Rightarrow> (payload + unit) \<times> world" where
  "Logger_info e layer message opts = Logger_record e Info layer message opts"

definition Logger_debug :: "env \<Rightarrow> string \<Rightarrow> payload \<Rightarrow> options \<Rightarrow> world \<Rightarrow> (payload + unit) \<times> world" where
  "Logger_debug e layer message opts = Logger_record e Debug layer message opts"

definition Logger_log :: "env \<Rightarrow> string \<Rightarrow> payload \<Rightarrow> options \<Rightarrow> world \<Rightarrow> (payload + unit) \<times> world" where
  "Logger_log e layer message opts = Logger_record e Log layer message opts"

definition Logger_warning :: "env \<Rightarrow> string \<Rightarrow> payload \<Rightarrow> options \<Rightarrow> world \<Rightarrow> (payload + unit) \<times> world" where
  "Logger_warning e layer message opts = Logger_record e Warning layer message opts"

text \<open>\<open>error\<close> passes \<open>{ ...options, trace: true }\<close>.\<close>

definition Logger_error :: "env \<Rightarrow> string \<Rightarrow> payload \<Rightarrow> options \<Rightarrow> world \<Rightarrow> (payload + unit) \<times> world" where
  "Logger_error e layer err opts = Logger_record e Error layer err (opts\<lparr>opt_trace := True\<rparr>)"

definition Logger_set :: "env \<Rightarrow> payload \<Rightarrow> string \<Rightarrow> options \<Rightarrow> world \<Rightarrow> (payload + unit) \<times> world" where
  "Logger_set e err layer opts = Logger_error e layer err opts"

definition Logger_all :: "env \<Rightarrow> string \<Rightarrow> payload \<Rightarrow> options \<Rightarrow> world \<Rightarrow> (payload + unit) \<times> world" where
  "Logger_all e layer message opts = Logger_record e All layer message opts"

definition Logger_trace :: "env \<Rightarrow> string \<Rightarrow> jsval \<Rightarrow> world \<Rightarrow> (payload + unit) \<times> world" where
  "Logger_trace e layer message =
     Logger_record e Debug layer (ErrorObject (new_Error e message)) (no_options\<lparr>opt_trace := True\<rparr>)"

text \<open>The box-drawing character of the markers, U+2500, as its three bytes, four times.\<close>

definition rule4 :: string where
  "rule4 = concat (replicate 4 [CHR 0xE2, CHR 0x94, CHR 0x80])"

definition start_marker :: "string \<Rightarrow> payload" where
  "start_marker title = Value (JStr (rule4 @ '' '' @ title @ '' '' @ rule4))"

definition end_marker :: "string \<Rightarrow> payload" where
  "end_marker title = Value (JStr (rule4 @ '' End '' @ title @ '' '' @ rule4))"

text \<open>\<open>group\<close>: the callback is any computation on the world that returns or throws.\<close>

definition Logger_group ::
  "env \<Rightarrow> string \<Rightarrow> string \<Rightarrow> (world \<Rightarrow> (payload + unit) \<times> world) \<Rightarrow> world \<Rightarrow> (payload + unit) \<times> world" where
  "Logger_group e layer title callback =
     io_bind (Logger_info e layer (start_marker title) no_options) (\<lambda>u.
       io_finally callback (Logger_info e layer (end_marker title) no_options))"

definition JSON_stringify :: "env \<Rightarrow> jsval \<Rightarrow> (payload + string)" where
  "JSON_stringify e v =
     (if has_bigint v
      then Inl (ErrorObject \<lparr>err_message = ''Do not know how to serialize a BigInt'', err_name = ''TypeError'',
                            err_stack = captureStack e ''Do not know how to serialize a BigInt'',
                            err_code = JUndefined\<rparr>)
      else Inr (json_text e v))"

definition Logger_table :: "env \<Rightarrow> string \<Rightarrow> jsval \<Rightarrow> world \<Rightarrow> (payload + unit) \<times> world" where
  "Logger_table e layer data w =
     (case data of
        JArr xs \<Rightarrow>
          if length xs > 0
          then (let w' = w\<lparr>stdout := stdout w @ [ConsoleTable data]\<rparr>
                in case JSON_stringify e data of
                     Inl err \<Rightarrow> (Inl err, w')
                   | Inr json \<Rightarrow>
                       writeToFile e ''log'' (timestamp w' @ '' | TABLE | '' @ toUpperCase e layer @ NL # json) w')
          else io_return () w
      | _ \<Rightarrow> io_return () w)"

definition Logger_stats :: "world \<Rightarrow> severity \<Rightarrow> nat" where
  "Logger_stats w = logStats w"

definition Logger_clearStats :: "world \<Rightarrow> world" where
  "Logger_clearStats w = w\<lparr>logStats := (\<lambda>key. 0)\<rparr>"

subsection \<open>The shapes of a stack line, as the specification words them\<close>

text \<open>
  The language of a sequence of items, without the order in which the matcher tries:
  \<open>accepts r s gs\<close> when a prefix of the characters \<open>s\<close> is made of the items of \<open>r\<close> in
  turn, \<open>gs\<close> being the characters of the groups.
\<close>

fun accepts :: "ritem list \<Rightarrow> string list \<Rightarrow> string list list \<Rightarrow> bool" where
  "accepts [] s gs = (gs = [])"
| "accepts (Lit c # r) s gs = (\<exists>xs. s = [c] # xs \<and> accepts r xs gs)"
| "accepts (Rep cl # r) s gs =
     (\<exists>u v. s = u @ v \<and> u \<noteq> [] \<and> list_all (in_class cl) u \<and> accepts r v gs)"
| "accepts (Cap g cl # r) s gs =
     (\<exists>u v gs'. s = u @ v \<and> u \<noteq> [] \<and> list_all (in_class cl) u \<and> gs = u # gs' \<and> accepts r v gs')"

text \<open>The characters of an ASCII text; one or more white-space characters; one or more
  characters of a line; one or more decimal digits.\<close>

definition lit :: "string \<Rightarrow> string list" where
  "lit s = map (\<lambda>c. [c]) s"

definition blanks :: "string list \<Rightarrow> bool" where
  "blanks s = (s \<noteq> [] \<and> list_all is_space s)"

definition text1 :: "string list \<Rightarrow> bool" where
  "text1 s = (s \<noteq> [] \<and> list_all (\<lambda>u. \<not> is_line_terminator u) s)"

definition digits :: "string list \<Rightarrow> bool" where
  "digits s = (s \<noteq> [] \<and> list_all is_digit s)"

text \<open>
  The first shape, \<open>at <function> (<file>:<line>:<col>)\<close>, somewhere in the characters
  \<open>L\<close> of a line, with the characters of the four texts named; and the second,
  \<open>at <file>:<line>:<col>\<close>.
\<close>

definition frame_chars ::
  "string list \<Rightarrow> string list \<Rightarrow> string list \<Rightarrow> string list \<Rightarrow> string list \<Rightarrow> bool" where
  "frame_chars L f fi ln c =
     (\<exists>pre ws ws' post.
        L = pre @ lit ''at'' @ ws @ f @ ws' @ lit ''('' @ fi @ lit '':'' @ ln @ lit '':'' @ c @ lit '')'' @ post \<and>
        blanks ws \<and> text1 f \<and> blanks ws' \<and> text1 fi \<and> digits ln \<and> digits c)"

definition anonymous_chars ::
  "string list \<Rightarrow> string list \<Rightarrow> string list \<Rightarrow> string list \<Rightarrow> bool" where
  "anonymous_chars L fi ln c =
     (\<exists>pre ws post.
        L = pre @ lit ''at'' @ ws @ fi @ lit '':'' @ ln @ lit '':'' @ c @ post \<and>
        blanks ws \<and> text1 fi \<and> digits ln \<and> digits c)"

text \<open>The same of a line and of the four texts, as strings.\<close>

definition frame_text :: "string \<Rightarrow> string \<Rightarrow> string \<Rightarrow> string \<Rightarrow> string \<Rightarrow> bool" where
  "frame_text l f fi ln c =
     (\<exists>F FI LN C. frame_chars (chars_of l) F FI LN C \<and>
        f = concat F \<and> fi = concat FI \<and> ln = concat LN \<and> c = concat C)"

definition anonymous_text :: "string \<Rightarrow> string \<Rightarrow> string \<Rightarrow> string \<Rightarrow> bool" where
  "anonymous_text l fi ln c =
     (\<exists>FI LN C. anonymous_chars (chars_of l) FI LN C \<and>
        fi = concat FI \<and> ln = concat LN \<and> c = concat C)"

definition is_frame_line :: "string \<Rightarrow> bool" where
  "is_frame_line l = (\<exists>f fi ln c. frame_text l f fi ln c)"

definition is_anonymous_line :: "string \<Rightarrow> bool" where
  "is_anonymous_line l = (\<exists>fi ln c. anonymous_text l fi ln c)"

text \<open>A frame as a stack prints it: indentation, \<open>at\<close>, and a function text that starts
  with a character other than white space.\<close>

definition indented_frame_line :: "string \<Rightarrow> bool" where
  "indented_frame_line l =
     (\<exists>indent ws f ws' fi ln c post.
        chars_of l =
          indent @ lit ''at'' @ ws @ f @ ws' @ lit ''('' @ fi @ lit '':'' @ ln @ lit '':'' @ c @ lit '')'' @ post \<and>
        list_all is_space indent \<and> blanks ws \<and> text1 f \<and> \<not> is_space (hd f) \<and> blanks ws' \<and>
        text1 fi \<and> digits ln \<and> digits c)"

text \<open>A character as \<open>chars_of\<close> cuts it after the first: a byte that is not a continuation
  byte, and continuation bytes.\<close>

definition inner_char :: "string \<Rightarrow> bool" where
  "inner_char u = (u \<noteq> [] \<and> \<not> is_cont (hd u) \<and> list_all is_cont (tl u))"

fun is_frame :: "entry \<Rightarrow> bool" where
  "is_frame (Frame f fi ln c) = True"
| "is_frame (Raw r) = False"

text \<open>
  What a line contributes: a line of the first shape an entry whose four properties are
  texts of that shape in the line, the function trimmed (and not empty when the line is
  an indented frame); a line of the second shape only an entry with the function
  \<open>anonymous\<close>; any other line its trimmed text as a raw entry. A line of neither shape
  that is blank contributes nothing.
\<close>

definition entry_of :: "string \<Rightarrow> entry \<Rightarrow> bool" where
  "entry_of l e =
     (if is_frame_line l
      then (\<exists>f fi ln c. frame_text l f fi ln c \<and> e = Frame (trim f) fi ln c) \<and>
           (indented_frame_line l \<longrightarrow> frame_function e \<noteq> [])
      else if is_anonymous_line l
      then (\<exists>fi ln c. anonymous_text l fi ln c \<and> e = Frame ''anonymous'' fi ln c)
      else e = Raw (trim l))"

definition yields_entry :: "string \<Rightarrow> bool" where
  "yields_entry l = (is_frame_line l \<or> is_anonymous_line l \<or> trim l \<noteq> [])"

definition shaped :: "string \<Rightarrow> bool" where
  "shaped l = (is_frame_line l \<or> is_anonymous_line l)"

text \<open>A stack with a message of two lines, a blank line, and one frame; and one whose
  lines are indented and separated with no-break spaces, U+00A0.\<close>

definition demo_stack :: string where
  "demo_stack = ''Error: boom'' @ NL # ''  caused by x'' @ NL # NL # ''    at f (/a.js:1:2)'' @ [NL]"

definition nbsp :: string where
  "nbsp = [CHR 0xC2, CHR 0xA0]"

definition demo_nbsp_stack :: string where
  "demo_nbsp_stack =
     ''Error: boom'' @ NL # nbsp @ ''at'' @ nbsp @ ''f (/a.js:1:2)'' @ NL # nbsp @ ''raw line'' @ nbsp"

subsection \<open>Names for what the claims speak of\<close>

text \<open>The directory of the current day, the canonical file of a sink in it, and the name
  a rotation at the current instant gives that file.\<close>

definition day_dir :: "env \<Rightarrow> world \<Rightarrow> string" where
  "day_dir e w = path_join (LOG_DIR e) (isoDate (clock w))"

definition log_file :: "env \<Rightarrow> world \<Rightarrow> string \<Rightarrow> string" where
  "log_file e w t = path_join (day_dir e w) (t @ ''.log'')"

definition rotated_file :: "env \<Rightarrow> world \<Rightarrow> string \<Rightarrow> string" where
  "rotated_file e w t = path_join (day_dir e w) (t @ ''.'' @ show_nat (epochMillis (clock w)) @ ''.log'')"

text \<open>The appends made so far: path and data, oldest first.\<close>

fun appends_of :: "fs_event list \<Rightarrow> (string \<times> string) list" where
  "appends_of [] = []"
| "appends_of (Append p d # evs) = (p, d) # appends_of evs"
| "appends_of (ev # evs) = appends_of evs"

definition appends :: "world \<Rightarrow> (string \<times> string) list" where
  "appends w = appends_of (oplog w)"

text \<open>The size of the file at a path, 0 when there is none.\<close>

definition file_size :: "world \<Rightarrow> string \<Rightarrow> nat" where
  "file_size w p = (case files w p of None \<Rightarrow> 0 | Some c \<Rightarrow> length c)"

text \<open>The part of the block before the append: the rotation.\<close>

definition rotate_step :: "env \<Rightarrow> string \<Rightarrow> string \<Rightarrow> world \<Rightarrow> (string + unit) \<times> world" where
  "rotate_step e type file w =
     (if existsSync file w
      then io_bind (statSync_size file) (\<lambda>size w'.
             if size > MAX_LOG_SIZE
             then (let timestamp = epochMillis (clock w')
                   in io_bind (todayDir e) (\<lambda>d'.
                        let rotatedFile = path_join d' (type @ ''.'' @ show_nat timestamp @ ''.log'')
                        in renameSync file rotatedFile) w')
             else io_return () w') w
      else io_return () w)"

text \<open>The value \<open>record\<close> throws: \<open>err instanceof Error ? err : new Error(err)\<close>.\<close>

definition rethrown :: "env \<Rightarrow> payload \<Rightarrow> payload" where
  "rethrown e err = (case err of ErrorObject x \<Rightarrow> ErrorObject x | Value v \<Rightarrow> ErrorObject (new_Error e v))"

text \<open>The condition \<open>shouldLog\<close> of \<open>record\<close>.\<close>

definition shouldLog :: "env \<Rightarrow> severity \<Rightarrow> bool" where
  "shouldLog e type = (\<not> production e \<or> \<not> (type = Error \<or> type = Warning))"

text \<open>The two writes of \<open>record\<close>, in their order: the sink of the severity, then \<open>all\<close>.\<close>

definition write_both :: "env \<Rightarrow> severity \<Rightarrow> string \<Rightarrow> world \<Rightarrow> world" where
  "write_both e type fileMessage w =
     snd (writeToFile e ''all'' fileMessage (snd (writeToFile e (sev_name type) fileMessage w)))"

text \<open>
  A sequence of calls of the six methods. Each call comes with the reading of the clock
  at the time it is made; a call that throws does not stop the calls after it (the
  caller has caught what it threw).
\<close>

type_synonym call = "date \<times> severity \<times> string \<times> payload \<times> options"

fun dispatch :: "env \<Rightarrow> severity \<Rightarrow> string \<Rightarrow> payload \<Rightarrow> options \<Rightarrow> world \<Rightarrow> (payload + unit) \<times> world" where
  "dispatch e Info layer p opts = Logger_info e layer p opts"
| "dispatch e Debug layer p opts = Logger_debug e layer p opts"
| "dispatch e Log layer p opts = Logger_log e layer p opts"
| "dispatch e Warning layer p opts = Logger_warning e layer p opts"
| "dispatch e Error layer p opts = Logger_error e layer p opts"
| "dispatch e All layer p opts = Logger_all e layer p opts"

fun run_calls :: "env \<Rightarrow> call list \<Rightarrow> world \<Rightarrow> world" where
  "run_calls e [] w = w"
| "run_calls e ((d, sev, layer, p, opts) # cs) w =
     run_calls e cs (snd (dispatch e sev layer p opts (w\<lparr>clock := d\<rparr>)))"

definition severity_of :: "call \<Rightarrow> severity" where
  "severity_of c = fst (snd c)"

definition calls_with :: "severity \<Rightarrow> call list \<Rightarrow> nat" where
  "calls_with sev cs = length (filter (\<lambda>c. severity_of c = sev) cs)"

subsection \<open>Concrete inputs\<close>

definition demo_date :: date where
  "demo_date =
     \<lparr>fullYear = 2025, month = 0, dayOfMonth = 1, hours = 10, minutes = 0, seconds = 0,
      milliseconds = 0, isoDate = ''2025-01-01'', epochMillis = 1735725600000\<rparr>"

definition demo_context :: jsval where
  "demo_context = JObj [(''port'', JNum 5432)]"

text \<open>
  \<open>JSON.stringify(v, null, 2)\<close> on the elements and properties of the values it
  serialises: \<open>ind\<close> is the indentation of the line the value starts on. An element
  \<open>undefined\<close> of an array is \<open>null\<close>, a property \<open>undefined\<close> of an object is left out,
  and a string is quoted with the escapes of JSON. (A value that holds a \<open>BigInt\<close> never
  gets here: \<open>JSON_stringify\<close> has thrown.)
\<close>

definition hex_digit :: "nat \<Rightarrow> char" where
  "hex_digit n = ''0123456789abcdef'' ! n"

definition json_quote_char :: "char \<Rightarrow> string" where
  "json_quote_char c =
     (let n = (of_char c :: nat)
      in if n = 0x22 then [CHR 0x5C, CHR 0x22]
         else if n = 0x5C then [CHR 0x5C, CHR 0x5C]
         else if n = 8 then [CHR 0x5C, CHR ''b'']
         else if n = 9 then [CHR 0x5C, CHR ''t'']
         else if n = 10 then [CHR 0x5C, CHR ''n'']
         else if n = 12 then [CHR 0x5C, CHR ''f'']
         else if n = 13 then [CHR 0x5C, CHR ''r'']
         else if n < 32 then [CHR 0x5C, CHR ''u'', CHR ''0'', CHR ''0'', hex_digit (n div 16), hex_digit (n mod 16)]
         else [c])"

definition json_quote :: "string \<Rightarrow> string" where
  "json_quote s = CHR 0x22 # concat (map json_quote_char s) @ [CHR 0x22]"

fun join_with :: "string \<Rightarrow> string list \<Rightarrow> string" where
  "join_with sep [] = []"
| "join_with sep [x] = x"
| "join_with sep (x # y # ys) = x @ sep @ join_with sep (y # ys)"

fun JSON_text :: "string \<Rightarrow> jsval \<Rightarrow> string" where
  "JSON_text ind JUndefined = ''null''"
| "JSON_text ind JNull = ''null''"
| "JSON_text ind (JBool b) = (if b then ''true'' else ''false'')"
| "JSON_text ind (JNum n) = show_int n"
| "JSON_text ind (JBigInt n) = []"
| "JSON_text ind (JStr s) = json_quote s"
| "JSON_text ind (JArr xs) =
     (if xs = [] then ''[]''
      else ''['' @ NL # ind @ ''  '' @
           join_with ('','' @ NL # ind @ ''  '') (map (JSON_text (ind @ ''  '')) xs) @
           NL # ind @ '']'')"
| "JSON_text ind (JObj kvs) =
     (let members = map (\<lambda>kv. json_quote (fst kv) @ '': '' @ JSON_text (ind @ ''  '') (snd kv))
                      (filter (\<lambda>kv. snd kv \<noteq> JUndefined) kvs)
      in if members = [] then ''{}''
         else ''{'' @ NL # ind @ ''  '' @ join_with ('','' @ NL # ind @ ''  '') members @ NL # ind @ ''}'')"

text \<open>An environment outside production mode. The layers of the calls below are ASCII,
  so its \<open>upperCase\<close> is never asked.\<close>

definition demo_env :: env where
  "demo_env =
     \<lparr>production = False, LOG_DIR = ''/srv/logs'',
      inspect = (\<lambda>v. if v = demo_context then Some (''{'' @ NL # ''  port: 5432'' @ NL # ''}'') else None),
      json_text = JSON_text [],
      captureStack = (\<lambda>m. Some (''Error: '' @ m @ NL # ''    at main (/app/main.js:1:1)'')),
      upperCase = map upper_char\<rparr>"

definition demo_world :: world where
  "demo_world =
     \<lparr>logStats = (\<lambda>key. 0), files = Map.empty, dirs = {}, dirSize = (\<lambda>p. 4096), stdout = [],
      stderr = [], clock = demo_date, faults = [], oplog = []\<rparr>"

text \<open>\<open>new Error('conn refused')\<close>, thrown in \<open>connect\<close>.\<close>

definition demo_error :: error_obj where
  "demo_error =
     \<lparr>err_message = ''conn refused'', err_name = ''Error'',
      err_stack = Some (''Error: conn refused'' @ NL # ''    at connect (/app/db.js:10:5)''),
      err_code = JUndefined\<rparr>"

text \<open>The day's directory with an \<open>info.log\<close> of exactly the maximal size, and with one that
  is one byte larger.\<close>

definition demo_full :: world where
  "demo_full =
     demo_world\<lparr>files := [''/srv/logs/2025-01-01/info.log'' \<mapsto> replicate MAX_LOG_SIZE CHR ''x''],
                dirs := {''/srv/logs/2025-01-01''}\<rparr>"

definition demo_over :: world where
  "demo_over =
     demo_world\<lparr>files := [''/srv/logs/2025-01-01/info.log'' \<mapsto> replicate (MAX_LOG_SIZE + 1) CHR ''x''],
                dirs := {''/srv/logs/2025-01-01''}\<rparr>"

text \<open>A world in which the next call of the file system fails.\<close>

definition demo_faulty :: world where
  "demo_faulty = demo_world\<lparr>faults := [Some ''ENOSPC: no space left on device'']\<rparr>"

text \<open>
  Worlds in which one call of the three fails. The day's directory without an
  \<open>info.log\<close>, the disk full when the line is appended; an \<open>info.log\<close> that \<open>statSync\<close>
  is not allowed to read; an \<open>info.log\<close> over the maximal size that \<open>renameSync\<close> is not
  allowed to move; and an \<open>info.log\<close> that is a directory.
\<close>

definition demo_day :: world where
  "demo_day = demo_world\<lparr>dirs := {''/srv/logs/2025-01-01''}\<rparr>"

definition demo_append_fails :: world where
  "demo_append_fails = demo_day\<lparr>faults := [Some ''ENOSPC: no space left on device, write'']\<rparr>"

definition demo_stat_fails :: world where
  "demo_stat_fails = demo_full\<lparr>faults := [Some ''EACCES: permission denied, stat'']\<rparr>"

definition demo_rename_fails :: world where
  "demo_rename_fails = demo_over\<lparr>faults := [None, Some ''EPERM: operation not permitted, rename'']\<rparr>"

definition demo_dir_sink :: world where
  "demo_dir_sink = demo_world\<lparr>dirs := {''/srv/logs/2025-01-01'', ''/srv/logs/2025-01-01/info.log''}\<rparr>"

text \<open>Three calls: two of \<open>info\<close> and one of \<open>all\<close>.\<close>

definition demo_calls :: "call list" where
  "demo_calls =
     [(demo_date, Info, ''app'', Value (JStr ''started''), no_options),
      (demo_date, All, ''app'', Value (JStr ''note''), no_options),
      (demo_date, Info, ''app'', Value (JStr ''ready''), no_options)]"

definition demo_opts :: options where
  "demo_opts = \<lparr>opt_context = demo_context, opt_trace = False, opt_noThrow = True\<rparr>"

definition demo_prod :: env where
  "demo_prod = demo_env\<lparr>production := True\<rparr>"

text \<open>A callback that throws.\<close>

definition demo_callback :: "world \<Rightarrow> (payload + unit) \<times> world" where
  "demo_callback w = (Inl (ErrorObject demo_error), w)"


section \<open>Properties\<close>

subsection \<open>What the file operations leave alone\<close>

lemmas fs_defs = mkdirSync_def statSync_size_def renameSync_def appendFileSync_def next_fault_def
lemmas io_defs = io_bind_def io_return_def io_catch_def io_finally_def

lemma mkdirSync_frame:
  "mkdirSync p w = (r, w') \<Longrightarrow>
     logStats w' = logStats w \<and> stdout w' = stdout w \<and> stderr w' = stderr w \<and> clock w' = clock w"
  by (auto simp: fs_defs split: list.splits option.splits)

lemma statSync_frame:
  "statSync_size p w = (r, w') \<Longrightarrow>
     logStats w' = logStats w \<and> stdout w' = stdout w \<and> stderr w' = stderr w \<and> clock w' = clock w"
  by (auto simp: fs_defs split: list.splits option.splits if_splits)

lemma renameSync_frame:
  "renameSync p q w = (r, w') \<Longrightarrow>
     logStats w' = logStats w \<and> stdout w' = stdout w \<and> stderr w' = stderr w \<and> clock w' = clock w"
  by (auto simp: fs_defs split: list.splits option.splits if_splits)

lemma appendFileSync_frame:
  "appendFileSync p d w = (r, w') \<Longrightarrow>
     logStats w' = logStats w \<and> stdout w' = stdout w \<and> stderr w' = stderr w \<and> clock w' = clock w"
  by (auto simp: fs_defs split: list.splits option.splits if_splits)

lemma todayDir_frame:
  "todayDir e w = (r, w') \<Longrightarrow>
     logStats w' = logStats w \<and> stdout w' = stdout w \<and> stderr w' = stderr w \<and> clock w' = clock w"
  unfolding todayDir_def Let_def io_defs
  by (auto split: if_splits prod.splits sum.splits dest: mkdirSync_frame)

lemma writeToFile_try_frame:
  "writeToFile_try e t m w = (r, w') \<Longrightarrow>
     logStats w' = logStats w \<and> stdout w' = stdout w \<and> stderr w' = stderr w \<and> clock w' = clock w"
  unfolding writeToFile_try_def Let_def io_defs
  by (auto split: if_splits prod.splits sum.splits
        dest!: todayDir_frame statSync_frame renameSync_frame appendFileSync_frame)

lemma writeToFile_returns: "fst (writeToFile e t m w) = Inr ()"
  unfolding writeToFile_def io_defs by (auto split: prod.splits sum.splits)

lemma writeToFile_frame:
  "writeToFile e t m w = (r, w') \<Longrightarrow>
     logStats w' = logStats w \<and> stdout w' = stdout w \<and> clock w' = clock w"
  unfolding writeToFile_def io_defs report_failure_def
  by (auto split: prod.splits sum.splits dest!: writeToFile_try_frame)

lemma writeToFile_stderr:
  "stderr (snd (writeToFile e t m w)) =
     (case fst (writeToFile_try e t m w) of
        Inl err \<Rightarrow> stderr w @ [''Failed to write log: '' @ err]
      | Inr u \<Rightarrow> stderr w)"
  unfolding writeToFile_def io_defs report_failure_def
  by (auto split: prod.splits sum.splits dest!: writeToFile_try_frame)

subsection \<open>The matcher, the shapes and the parsed stack\<close>

lemma first_some_SomeD:
  "first_some f ks = Some y \<Longrightarrow> \<exists>k \<in> set ks. f k = Some y"
  by (induction ks) (auto split: option.splits)

lemma first_some_SomeI:
  "k \<in> set ks \<Longrightarrow> f k = Some y \<Longrightarrow> \<exists>z. first_some f ks = Some z"
  by (induction ks) (auto split: option.splits)

lemma set_tries: "set (tries g n) = {k. 1 \<le> k \<and> k \<le> n}"
  by (auto simp: tries_def)

lemma take_span_all:
  "k \<le> length (takeWhile P s) \<Longrightarrow> list_all P (take k s)"
proof (induction s arbitrary: k)
  case Nil
  then show ?case by simp
next
  case (Cons x xs)
  then show ?case by (cases k) (auto split: if_splits)
qed

lemma span_prefix:
  "list_all P u \<Longrightarrow> length u \<le> length (takeWhile P (u @ v))"
  by (induction u) auto

lemma rmatch_sound:
  "rmatch r s = Some gs \<Longrightarrow> accepts r s gs"
proof (induction r arbitrary: s gs)
  case Nil
  then show ?case by simp
next
  case (Cons it r)
  show ?case
  proof (cases it)
    case (Lit c)
    with Cons show ?thesis by (auto split: list.splits if_splits)
  next
    case (Rep cl)
    with Cons.prems obtain k where k: "1 \<le> k" "k \<le> span cl s" "rmatch r (drop k s) = Some gs"
      by (auto dest!: first_some_SomeD simp: set_tries)
    have "take k s \<noteq> []" using k by (auto simp: span_def)
    moreover have "list_all (in_class cl) (take k s)" using k by (simp add: span_def take_span_all)
    moreover have "accepts r (drop k s) gs" using k Cons.IH by blast
    ultimately have "\<exists>u v. s = u @ v \<and> u \<noteq> [] \<and> list_all (in_class cl) u \<and> accepts r v gs"
      by (intro exI [of _ "take k s"] exI [of _ "drop k s"]) simp
    then show ?thesis unfolding Rep by simp
  next
    case (Cap g cl)
    with Cons.prems obtain k gs' where k: "1 \<le> k" "k \<le> span cl s" "rmatch r (drop k s) = Some gs'"
      "gs = take k s # gs'"
      by (auto dest!: first_some_SomeD simp: set_tries)
    have "take k s \<noteq> []" using k by (auto simp: span_def)
    moreover have "list_all (in_class cl) (take k s)" using k by (simp add: span_def take_span_all)
    moreover have "accepts r (drop k s) gs'" using k Cons.IH by blast
    ultimately have "\<exists>u v gs'. s = u @ v \<and> u \<noteq> [] \<and> list_all (in_class cl) u \<and> gs = u # gs' \<and> accepts r v gs'"
      using k(4) by (intro exI [of _ "take k s"] exI [of _ "drop k s"] exI [of _ gs']) simp
    then show ?thesis unfolding Cap by simp
  qed
qed

lemma rmatch_complete:
  "accepts r s gs \<Longrightarrow> \<exists>gs'. rmatch r s = Some gs'"
proof (induction r arbitrary: s gs)
  case Nil
  then show ?case by simp
next
  case (Cons it r)
  show ?case
  proof (cases it)
    case (Lit c)
    with Cons show ?thesis by auto
  next
    case (Rep cl)
    with Cons.prems obtain u v where uv: "s = u @ v" "u \<noteq> []" "list_all (in_class cl) u" "accepts r v gs"
      by auto
    then obtain gs' where g: "rmatch r v = Some gs'" using Cons.IH by blast
    have "length u \<in> set (tries True (span cl s))"
      using uv by (auto simp: set_tries span_def span_prefix Suc_le_eq)
    moreover have "rmatch r (drop (length u) s) = Some gs'" using uv g by simp
    ultimately show ?thesis unfolding Rep
      using first_some_SomeI [of "length u" _ "\<lambda>k. rmatch r (drop k s)"] by simp
  next
    case (Cap g cl)
    with Cons.prems obtain u v gs0 where uv: "s = u @ v" "u \<noteq> []" "list_all (in_class cl) u" "accepts r v gs0"
      by auto
    then obtain gs' where g: "rmatch r v = Some gs'" using Cons.IH by blast
    have "length u \<in> set (tries g (span cl s))"
      using uv by (auto simp: set_tries span_def span_prefix Suc_le_eq)
    moreover have "map_option ((#) (take (length u) s)) (rmatch r (drop (length u) s)) = Some (u # gs')"
      using uv g by simp
    ultimately show ?thesis unfolding Cap
      using first_some_SomeI [of "length u" _ "\<lambda>k. map_option ((#) (take k s)) (rmatch r (drop k s))"] by simp
  qed
qed

lemma rsearch_sound:
  "rsearch r s = Some gs \<Longrightarrow> \<exists>pre t. s = pre @ t \<and> rmatch r t = Some gs"
proof (induction s)
  case Nil
  then show ?case by simp
next
  case (Cons x xs)
  show ?case
  proof (cases "rmatch r (x # xs)")
    case None
    with Cons obtain pre t where "xs = pre @ t" "rmatch r t = Some gs" by auto
    then have "x # xs = (x # pre) @ t \<and> rmatch r t = Some gs" by simp
    then show ?thesis by blast
  next
    case (Some g)
    with Cons.prems have "x # xs = [] @ (x # xs) \<and> rmatch r (x # xs) = Some gs" by simp
    then show ?thesis by blast
  qed
qed

lemma rsearch_complete:
  "rmatch r t = Some gs \<Longrightarrow> \<exists>gs'. rsearch r (pre @ t) = Some gs'"
proof (induction pre)
  case Nil
  then show ?case by (cases t) auto
next
  case (Cons x pre)
  then show ?case by (cases "rmatch r (x # pre @ t)") auto
qed

lemma in_class_DOT: "in_class DOT = (\<lambda>u. \<not> is_line_terminator u)"
  by (rule ext) simp

lemma in_class_WS: "in_class WS = is_space"
  by (rule ext) simp

lemma in_class_DIGIT: "in_class DIGIT = is_digit"
  by (rule ext) simp

lemma accepts_frame_regex1:
  "accepts frame_regex t gs \<Longrightarrow>
     (\<exists>f fi ln c ws ws' post. gs = [f, fi, ln, c] \<and>
        t = lit ''at'' @ ws @ f @ ws' @ lit ''('' @ fi @ lit '':'' @ ln @ lit '':'' @ c @ lit '')'' @ post \<and>
        blanks ws \<and> text1 f \<and> blanks ws' \<and> text1 fi \<and> digits ln \<and> digits c)"
  unfolding frame_regex_def blanks_def text1_def digits_def lit_def
  apply (clarsimp simp add: in_class_DOT in_class_WS in_class_DIGIT)
  apply (intro exI conjI)
          apply (rule refl)
         apply assumption+
  done

lemma accepts_LitI: "accepts r xs gs \<Longrightarrow> accepts (Lit c # r) ([c] # xs) gs"
  by simp

lemma accepts_RepI:
  "u \<noteq> [] \<and> list_all (in_class cl) u \<Longrightarrow> accepts r v gs \<Longrightarrow> accepts (Rep cl # r) (u @ v) gs"
  by auto

lemma accepts_CapI:
  "u \<noteq> [] \<and> list_all (in_class cl) u \<Longrightarrow> accepts r v gs \<Longrightarrow> accepts (Cap g cl # r) (u @ v) (u # gs)"
  by auto

lemma accepts_frame_regex2:
  "blanks ws \<Longrightarrow> text1 f \<Longrightarrow> blanks ws' \<Longrightarrow> text1 fi \<Longrightarrow> digits ln \<Longrightarrow> digits c \<Longrightarrow>
   accepts frame_regex
     (lit ''at'' @ ws @ f @ ws' @ lit ''('' @ fi @ lit '':'' @ ln @ lit '':'' @ c @ lit '')'' @ post)
     [f, fi, ln, c]"
  unfolding frame_regex_def blanks_def text1_def digits_def lit_def list.map append_Cons append_Nil
  by (intro accepts_LitI accepts_RepI accepts_CapI) (simp_all add: in_class_DOT in_class_WS in_class_DIGIT)

lemma accepts_anonymous_regex1:
  "accepts anonymous_regex t gs \<Longrightarrow>
     (\<exists>fi ln c ws post. gs = [fi, ln, c] \<and>
        t = lit ''at'' @ ws @ fi @ lit '':'' @ ln @ lit '':'' @ c @ post \<and>
        blanks ws \<and> text1 fi \<and> digits ln \<and> digits c)"
  unfolding anonymous_regex_def blanks_def text1_def digits_def lit_def
  apply (clarsimp simp add: in_class_DOT in_class_WS in_class_DIGIT)
  apply (intro exI conjI)
          apply (rule refl)
         apply assumption+
  done

lemma accepts_anonymous_regex2:
  "blanks ws \<Longrightarrow> text1 fi \<Longrightarrow> digits ln \<Longrightarrow> digits c \<Longrightarrow>
   accepts anonymous_regex (lit ''at'' @ ws @ fi @ lit '':'' @ ln @ lit '':'' @ c @ post) [fi, ln, c]"
  unfolding anonymous_regex_def blanks_def text1_def digits_def lit_def list.map append_Cons append_Nil
  by (intro accepts_LitI accepts_RepI accepts_CapI) (simp_all add: in_class_DOT in_class_WS in_class_DIGIT)

lemma frame_search_sound:
  assumes "rsearch frame_regex L = Some m"
  shows "\<exists>f fi ln c. m = [f, fi, ln, c] \<and> frame_chars L f fi ln c"
proof -
  from assms obtain pre t where pt: "L = pre @ t" "rmatch frame_regex t = Some m"
    using rsearch_sound by blast
  then have "accepts frame_regex t m" by (simp add: rmatch_sound)
  then obtain f fi ln c ws ws' post where
    "m = [f, fi, ln, c]"
    "t = lit ''at'' @ ws @ f @ ws' @ lit ''('' @ fi @ lit '':'' @ ln @ lit '':'' @ c @ lit '')'' @ post"
    "blanks ws" "text1 f" "blanks ws'" "text1 fi" "digits ln" "digits c"
    using accepts_frame_regex1 by blast
  with pt(1) show ?thesis unfolding frame_chars_def by blast
qed

lemma frame_search_complete:
  assumes "frame_chars L f fi ln c"
  shows "\<exists>m. rsearch frame_regex L = Some m"
proof -
  from assms obtain pre ws ws' post where
    l: "L = pre @ (lit ''at'' @ ws @ f @ ws' @ lit ''('' @ fi @ lit '':'' @ ln @ lit '':'' @ c @ lit '')'' @ post)"
    and c: "blanks ws" "text1 f" "blanks ws'" "text1 fi" "digits ln" "digits c"
    unfolding frame_chars_def by auto
  from c obtain m where
    "rmatch frame_regex
       (lit ''at'' @ ws @ f @ ws' @ lit ''('' @ fi @ lit '':'' @ ln @ lit '':'' @ c @ lit '')'' @ post) = Some m"
    using accepts_frame_regex2 rmatch_complete by blast
  then show ?thesis unfolding l by (rule rsearch_complete)
qed

lemma anonymous_search_sound:
  assumes "rsearch anonymous_regex L = Some m"
  shows "\<exists>fi ln c. m = [fi, ln, c] \<and> anonymous_chars L fi ln c"
proof -
  from assms obtain pre t where pt: "L = pre @ t" "rmatch anonymous_regex t = Some m"
    using rsearch_sound by blast
  then have "accepts anonymous_regex t m" by (simp add: rmatch_sound)
  then obtain fi ln c ws post where
    "m = [fi, ln, c]"
    "t = lit ''at'' @ ws @ fi @ lit '':'' @ ln @ lit '':'' @ c @ post"
    "blanks ws" "text1 fi" "digits ln" "digits c"
    using accepts_anonymous_regex1 by blast
  with pt(1) show ?thesis unfolding anonymous_chars_def by blast
qed

lemma anonymous_search_complete:
  assumes "anonymous_chars L fi ln c"
  shows "\<exists>m. rsearch anonymous_regex L = Some m"
proof -
  from assms obtain pre ws post where
    l: "L = pre @ (lit ''at'' @ ws @ fi @ lit '':'' @ ln @ lit '':'' @ c @ post)"
    and c: "blanks ws" "text1 fi" "digits ln" "digits c"
    unfolding anonymous_chars_def by auto
  from c obtain m where
    "rmatch anonymous_regex (lit ''at'' @ ws @ fi @ lit '':'' @ ln @ lit '':'' @ c @ post) = Some m"
    using accepts_anonymous_regex2 rmatch_complete by blast
  then show ?thesis unfolding l by (rule rsearch_complete)
qed

lemma parseLine_frame:
  assumes "is_frame_line l"
  shows "\<exists>f fi ln c. frame_text l f fi ln c \<and> parseLine l = Frame (trim f) fi ln c"
proof -
  from assms obtain F0 FI0 LN0 C0 where "frame_chars (chars_of l) F0 FI0 LN0 C0"
    unfolding is_frame_line_def frame_text_def by blast
  then obtain m where m: "rsearch frame_regex (chars_of l) = Some m"
    using frame_search_complete by blast
  then obtain F FI LN C where f: "m = [F, FI, LN, C]" "frame_chars (chars_of l) F FI LN C"
    using frame_search_sound by blast
  then have "frame_text l (concat F) (concat FI) (concat LN) (concat C)"
    unfolding frame_text_def by blast
  moreover have "parseLine l = Frame (trim (concat F)) (concat FI) (concat LN) (concat C)"
    using m f(1) by (simp add: parseLine_def)
  ultimately show ?thesis by blast
qed

lemma not_frame_line: "\<not> is_frame_line l \<Longrightarrow> rsearch frame_regex (chars_of l) = None"
  using frame_search_sound [of "chars_of l"] unfolding is_frame_line_def frame_text_def
  by (cases "rsearch frame_regex (chars_of l)") auto

lemma not_anonymous_line: "\<not> is_anonymous_line l \<Longrightarrow> rsearch anonymous_regex (chars_of l) = None"
  using anonymous_search_sound [of "chars_of l"] unfolding is_anonymous_line_def anonymous_text_def
  by (cases "rsearch anonymous_regex (chars_of l)") auto

lemma parseLine_anonymous:
  assumes "\<not> is_frame_line l" and "is_anonymous_line l"
  shows "\<exists>fi ln c. anonymous_text l fi ln c \<and> parseLine l = Frame ''anonymous'' fi ln c"
proof -
  from assms(2) obtain FI0 LN0 C0 where "anonymous_chars (chars_of l) FI0 LN0 C0"
    unfolding is_anonymous_line_def anonymous_text_def by blast
  then obtain m where m: "rsearch anonymous_regex (chars_of l) = Some m"
    using anonymous_search_complete by blast
  then obtain FI LN C where f: "m = [FI, LN, C]" "anonymous_chars (chars_of l) FI LN C"
    using anonymous_search_sound by blast
  then have "anonymous_text l (concat FI) (concat LN) (concat C)"
    unfolding anonymous_text_def by blast
  moreover have "parseLine l = Frame ''anonymous'' (concat FI) (concat LN) (concat C)"
    using m f(1) not_frame_line [OF assms(1)] by (simp add: parseLine_def)
  ultimately show ?thesis by blast
qed

lemma parseLine_raw:
  "\<not> is_frame_line l \<Longrightarrow> \<not> is_anonymous_line l \<Longrightarrow> parseLine l = Raw (trim l)"
  by (simp add: parseLine_def not_frame_line not_anonymous_line)

lemma chars_of_proper:
  "list_all (\<lambda>u. u \<noteq> [] \<and> list_all is_cont (tl u)) (chars_of s) \<and>
   list_all inner_char (tl (chars_of s))"
proof (induction s rule: chars_of.induct)
  case 1
  then show ?case by simp
next
  case (2 c cs)
  have t: "list_all is_cont (takeWhile is_cont cs)"
    by (auto simp: list_all_iff dest: set_takeWhileD)
  show ?case
  proof (cases "dropWhile is_cont cs")
    case Nil
    show ?thesis using t by (simp add: Nil)
  next
    case (Cons d ds)
    then have "\<not> is_cont d" using hd_dropWhile [of is_cont cs] by auto
    then show ?thesis using 2 t by (simp add: Cons inner_char_def)
  qed
qed

lemma chars_of_nonempty: "u \<in> set (chars_of s) \<Longrightarrow> u \<noteq> []"
  using chars_of_proper [of s] by (auto simp: list_all_iff)

lemma chars_of_inner: "chars_of s = pre @ us \<Longrightarrow> pre \<noteq> [] \<Longrightarrow> list_all inner_char us"
  using chars_of_proper [of s] by (cases pre) (auto simp: list_all_iff)

lemma chars_of_concat: "list_all inner_char us \<Longrightarrow> chars_of (concat us) = us"
proof (induction us)
  case Nil
  then show ?case by simp
next
  case (Cons u us)
  then obtain c cs where u: "u = c # cs" "list_all is_cont cs" by (cases u) (auto simp: inner_char_def)
  have rest: "takeWhile is_cont (concat us) = []"
  proof (cases us)
    case Nil
    then show ?thesis by simp
  next
    case (Cons v vs)
    with Cons.prems obtain d ds where "v = d # ds" "\<not> is_cont d"
      by (cases v) (auto simp: inner_char_def)
    then show ?thesis using Cons by simp
  qed
  have t: "takeWhile is_cont (cs @ concat us) = cs"
    using u(2) rest by (simp add: takeWhile_append list_all_iff)
  have d: "dropWhile is_cont (cs @ concat us) = concat us"
    using u(2) rest by (simp add: dropWhile_append list_all_iff takeWhile_eq_Nil_iff dropWhile_eq_self_iff)
  show ?case using Cons u by (simp add: t d)
qed

lemma concat_chars_nonempty:
  "us \<noteq> [] \<Longrightarrow> list_all (\<lambda>u. u \<noteq> []) us \<Longrightarrow> concat us \<noteq> []"
  by (cases us) auto

lemma trim_nonspace_hd:
  assumes "us \<noteq> []" and "\<not> is_space (hd us)" and "list_all inner_char us"
  shows "trim (concat us) \<noteq> []"
proof -
  have d1: "dropWhile is_space us = us" using assms(1,2) by (cases us) auto
  have "\<not> list_all is_space (rev us)" using assms(1,2) by (cases us) (auto simp: list_all_iff)
  then have d2: "dropWhile is_space (rev us) \<noteq> []"
    by (simp add: dropWhile_eq_Nil_conv list_all_iff)
  have "set (dropWhile is_space (rev us)) \<subseteq> set us"
    using set_dropWhileD [of _ is_space "rev us"] by auto
  then have "list_all (\<lambda>u. u \<noteq> []) (rev (dropWhile is_space (rev us)))"
    using assms(3) by (auto simp: list_all_iff inner_char_def)
  then have "concat (rev (dropWhile is_space (rev us))) \<noteq> []"
    using d2 by (intro concat_chars_nonempty) simp_all
  then show ?thesis by (simp add: trim_def chars_of_concat [OF assms(3)] d1)
qed

lemma rmatch_frame_skip: "x \<noteq> [CHR ''a''] \<Longrightarrow> rmatch frame_regex (x # xs) = None"
  by (simp add: frame_regex_def)

lemma rsearch_frame_indent:
  "list_all is_space indent \<Longrightarrow> t \<noteq> [] \<Longrightarrow> rsearch frame_regex (indent @ t) = rsearch frame_regex t"
proof (induction indent)
  case Nil
  then show ?case by simp
next
  case (Cons x indent)
  then have "x \<noteq> [CHR ''a'']" by (auto simp: is_space_def white_space_def)
  with Cons show ?case by (simp add: rmatch_frame_skip)
qed

lemma span_blanks:
  "list_all (in_class cl) u \<Longrightarrow> \<not> in_class cl x \<Longrightarrow> span cl (u @ x # xs) = length u"
  unfolding span_def by (induction u) auto

lemma tries_greedy_Suc: "tries True (Suc n) = Suc n # tries True n"
  by (simp add: tries_def)

lemma parseLine_indented_frame:
  assumes "indented_frame_line l"
  shows "\<exists>g fi ln c. parseLine l = Frame g fi ln c \<and> g \<noteq> []"
proof -
  from assms obtain indent ws f ws' fi ln c post where
    l: "chars_of l =
          indent @ lit ''at'' @ ws @ f @ ws' @ lit ''('' @ fi @ lit '':'' @ ln @ lit '':'' @ c @ lit '')'' @ post"
    and c: "list_all is_space indent" "blanks ws" "text1 f" "\<not> is_space (hd f)" "blanks ws'"
      "text1 fi" "digits ln" "digits c"
    unfolding indented_frame_line_def by blast
  define tail where "tail = ws' @ lit ''('' @ fi @ lit '':'' @ ln @ lit '':'' @ c @ lit '')'' @ post"
  define R where "R = [Cap False DOT, Rep WS, Lit CHR ''('',
      Cap True DOT, Lit CHR '':'', Cap True DIGIT, Lit CHR '':'', Cap True DIGIT, Lit CHR '')'']"
  obtain x fs where f: "f = x # fs" "\<not> is_space x" using c(3,4) by (cases f) (auto simp: text1_def)
  have acc: "accepts R (f @ tail) [f, fi, ln, c]"
    using c unfolding R_def tail_def blanks_def text1_def digits_def lit_def list.map append_Cons append_Nil
    by (intro accepts_LitI accepts_RepI accepts_CapI) (simp_all add: in_class_DOT in_class_WS in_class_DIGIT)
  then obtain gs where gs: "rmatch R (f @ tail) = Some gs" using rmatch_complete by blast
  then have "accepts R (f @ tail) gs" by (rule rmatch_sound)
  then obtain u v g2 g3 g4 where u: "f @ tail = u @ v" "u \<noteq> []" "gs = [u, g2, g3, g4]"
    unfolding R_def by auto
  have hdu: "hd u = x" using u(1,2) f by (cases u) auto
  obtain n where n: "length ws = Suc n" using c(2) by (cases ws) (auto simp: blanks_def)
  have sp: "span WS (ws @ f @ tail) = Suc n"
    using span_blanks [of WS ws x "fs @ tail"] c(2) f n by (simp add: blanks_def in_class_WS)
  have "rmatch frame_regex (lit ''at'' @ ws @ f @ tail) = Some gs"
    using gs sp n unfolding frame_regex_def R_def [symmetric]
    by (simp add: tries_greedy_Suc lit_def)
  then have "rsearch frame_regex (lit ''at'' @ ws @ f @ tail) = Some gs" by (simp add: lit_def)
  then have s: "rsearch frame_regex (chars_of l) = Some gs"
    unfolding l using rsearch_frame_indent [OF c(1), of "lit ''at'' @ ws @ f @ tail"]
    by (simp add: tail_def lit_def)
  have "chars_of l = (indent @ lit ''at'' @ ws) @ u @ v"
    unfolding l using u(1) by (simp add: tail_def)
  then have "list_all inner_char (u @ v)" by (rule chars_of_inner) (simp add: lit_def)
  then have iu: "list_all inner_char u" by simp
  have "parseLine l = Frame (trim (concat u)) (concat g2) (concat g3) (concat g4)"
    using s by (simp add: parseLine_def u(3))
  moreover have "trim (concat u) \<noteq> []" using trim_nonspace_hd [of u] u(2) hdu f(2) iu by simp
  ultimately show ?thesis by blast
qed

lemma entry_of_parseLine: "entry_of l (parseLine l)"
proof (cases "is_frame_line l")
  case True
  then show ?thesis
    unfolding entry_of_def using parseLine_frame [of l] parseLine_indented_frame [of l] by auto
next
  case False
  then show ?thesis
    unfolding entry_of_def using parseLine_anonymous [of l] parseLine_raw [of l] by auto
qed

lemma text1_concat:
  assumes "chars_of l = A @ us @ B" and "text1 us"
  shows "concat us \<noteq> []"
proof -
  have "list_all (\<lambda>u. u \<noteq> []) us"
    using chars_of_nonempty [of _ l] assms(1) by (auto simp: list_all_iff)
  then show ?thesis using assms(2) by (intro concat_chars_nonempty) (simp_all add: text1_def)
qed

lemma frame_file_nonempty: "frame_chars (chars_of l) F FI LN C \<Longrightarrow> concat FI \<noteq> []"
proof -
  assume "frame_chars (chars_of l) F FI LN C"
  then obtain pre ws ws' post where
    "chars_of l =
       pre @ lit ''at'' @ ws @ F @ ws' @ lit ''('' @ FI @ lit '':'' @ LN @ lit '':'' @ C @ lit '')'' @ post"
    and t: "text1 FI"
    unfolding frame_chars_def by blast
  then have "chars_of l = (pre @ lit ''at'' @ ws @ F @ ws' @ lit ''('') @ FI @
      (lit '':'' @ LN @ lit '':'' @ C @ lit '')'' @ post)"
    by simp
  then show ?thesis using t by (rule text1_concat)
qed

lemma anonymous_file_nonempty: "anonymous_chars (chars_of l) FI LN C \<Longrightarrow> concat FI \<noteq> []"
proof -
  assume "anonymous_chars (chars_of l) FI LN C"
  then obtain pre ws post where
    "chars_of l = pre @ lit ''at'' @ ws @ FI @ lit '':'' @ LN @ lit '':'' @ C @ post"
    and t: "text1 FI"
    unfolding anonymous_chars_def by blast
  then have "chars_of l = (pre @ lit ''at'' @ ws) @ FI @ (lit '':'' @ LN @ lit '':'' @ C @ post)"
    by simp
  then show ?thesis using t by (rule text1_concat)
qed

lemma kept_parseLine: "kept (parseLine l) = yields_entry l"
proof (cases "is_frame_line l")
  case True
  then show ?thesis
    using parseLine_frame [of l] frame_file_nonempty [of l]
    by (auto simp: yields_entry_def frame_text_def)
next
  case False
  then show ?thesis
    using parseLine_anonymous [of l] parseLine_raw [of l] anonymous_file_nonempty [of l]
    by (cases "is_anonymous_line l") (auto simp: yields_entry_def anonymous_text_def)
qed

lemma parsed_lines:
  "list_all2 entry_of (filter yields_entry ls) (filter kept (map parseLine ls))"
  by (induction ls) (simp_all add: kept_parseLine entry_of_parseLine)

lemma parseStack_lines:
  "parseStack (Some stack) = filter kept (map parseLine (tl (split_nl stack)))"
  by (simp add: parseStack_def)

lemma is_frame_parseLine: "is_frame (parseLine l) = shaped l"
proof (cases "is_frame_line l")
  case True
  then show ?thesis using parseLine_frame [of l] by (auto simp: shaped_def)
next
  case False
  then show ?thesis
    using parseLine_anonymous [of l] parseLine_raw [of l]
    by (cases "is_anonymous_line l") (auto simp: shaped_def)
qed

lemma shaped_kept: "shaped l \<Longrightarrow> kept (parseLine l)"
  by (auto simp: kept_parseLine yields_entry_def shaped_def)

lemma frames_of_lines:
  "length (filter is_frame (filter kept (map parseLine ls))) = length (filter shaped ls)"
  by (induction ls) (auto simp: is_frame_parseLine shaped_kept)

lemma raw_parseLine: "\<not> shaped l \<Longrightarrow> parseLine l = Raw (trim l)"
  by (simp add: shaped_def parseLine_raw)

lemma raws_of_lines:
  "filter (\<lambda>e. \<not> is_frame e) (filter kept (map parseLine ls)) =
   map Raw (filter (\<lambda>r. r \<noteq> []) (map trim (filter (\<lambda>l. \<not> shaped l) ls)))"
proof (induction ls)
  case Nil
  then show ?case by simp
next
  case (Cons l ls)
  then show ?case
    by (cases "shaped l") (auto simp: is_frame_parseLine raw_parseLine)
qed

text \<open>
  C6, as amended. \<open>parseStack\<close> drops the first line of the stack and returns, in the
  order of the lines, one entry for every line that has one of the two shapes, and one
  raw entry for every other line that is not blank. The entry of a line of the first
  shape holds a function, a file, a line and a column that are texts of that shape in
  the line (the function trimmed, and not empty when the line is an indented frame);
  the entry of a line of the second shape only holds the function \<open>anonymous\<close>; a raw
  entry holds the line without the white space around it. So the frames are as many as
  the lines with a shape, and the raw entries are the trimmed other lines that are not
  empty.
\<close>

theorem parseStack_entries:
  "list_all2 entry_of (filter yields_entry (tl (split_nl stack))) (parseStack (Some stack)) \<and>
   length (filter is_frame (parseStack (Some stack))) = length (filter shaped (tl (split_nl stack))) \<and>
   filter (\<lambda>e. \<not> is_frame e) (parseStack (Some stack)) =
     map Raw (filter (\<lambda>r. r \<noteq> []) (map trim (filter (\<lambda>l. \<not> shaped l) (tl (split_nl stack)))))"
  unfolding parseStack_lines
  by (intro conjI parsed_lines frames_of_lines raws_of_lines)

lemma demo_frame_line: "indented_frame_line ''    at f (/a.js:1:2)''"
proof -
  have c: "chars_of ''    at f (/a.js:1:2)'' =
      lit ''    '' @ lit ''at'' @ lit '' '' @ lit ''f'' @ lit '' '' @ lit ''('' @ lit ''/a.js'' @
      lit '':'' @ lit ''1'' @ lit '':'' @ lit ''2'' @ lit '')'' @ []"
    by code_simp
  show ?thesis
    unfolding indented_frame_line_def
    apply (rule exI [of _ "lit ''    ''"], rule exI [of _ "lit '' ''"], rule exI [of _ "lit ''f''"],
           rule exI [of _ "lit '' ''"], rule exI [of _ "lit ''/a.js''"], rule exI [of _ "lit ''1''"],
           rule exI [of _ "lit ''2''"], rule exI [of _ "[]"])
    apply (rule conjI, rule c)
    apply (simp add: lit_def blanks_def text1_def digits_def is_space_def white_space_def
        is_line_terminator_def is_digit_def)
    done
qed

lemma demo_stack_parsed:
  "parseStack (Some demo_stack) = [Raw ''caused by x'', Frame ''f'' ''/a.js'' ''1'' ''2'']"
  by code_simp

lemma demo_nbsp_stack_parsed:
  "parseStack (Some demo_nbsp_stack) = [Frame ''f'' ''/a.js'' ''1'' ''2'', Raw ''raw line'']"
  by code_simp

lemma demo_nbsp_stack_lines:
  "tl (split_nl demo_nbsp_stack) = [nbsp @ ''at'' @ nbsp @ ''f (/a.js:1:2)'', nbsp @ ''raw line'' @ nbsp]"
  by code_simp

theorem parseStack_entries_witness:
  "indented_frame_line ''    at f (/a.js:1:2)'' \<and>
   list_all2 entry_of (filter yields_entry (tl (split_nl demo_stack)))
     [Raw ''caused by x'', Frame ''f'' ''/a.js'' ''1'' ''2''] \<and>
   length (filter shaped (tl (split_nl demo_stack))) = 1 \<and>
   list_all2 entry_of
     (filter yields_entry [nbsp @ ''at'' @ nbsp @ ''f (/a.js:1:2)'', nbsp @ ''raw line'' @ nbsp])
     [Frame ''f'' ''/a.js'' ''1'' ''2'', Raw ''raw line''] \<and>
   length (filter shaped [nbsp @ ''at'' @ nbsp @ ''f (/a.js:1:2)'', nbsp @ ''raw line'' @ nbsp]) = 1"
proof -
  note a = parseStack_entries [of demo_stack, unfolded demo_stack_parsed]
  note b = parseStack_entries [of demo_nbsp_stack, unfolded demo_nbsp_stack_parsed]
  from a have a1: "list_all2 entry_of (filter yields_entry (tl (split_nl demo_stack)))
      [Raw ''caused by x'', Frame ''f'' ''/a.js'' ''1'' ''2'']"
    by (rule conjunct1)
  from a have a2: "length (filter shaped (tl (split_nl demo_stack))) = 1" by simp
  from b have "list_all2 entry_of (filter yields_entry (tl (split_nl demo_nbsp_stack)))
      [Frame ''f'' ''/a.js'' ''1'' ''2'', Raw ''raw line'']"
    by (rule conjunct1)
  then have b1: "list_all2 entry_of
      (filter yields_entry [nbsp @ ''at'' @ nbsp @ ''f (/a.js:1:2)'', nbsp @ ''raw line'' @ nbsp])
      [Frame ''f'' ''/a.js'' ''1'' ''2'', Raw ''raw line'']"
    unfolding demo_nbsp_stack_lines .
  from b have "length (filter shaped (tl (split_nl demo_nbsp_stack))) = 1" by simp
  then have b2:
    "length (filter shaped [nbsp @ ''at'' @ nbsp @ ''f (/a.js:1:2)'', nbsp @ ''raw line'' @ nbsp]) = 1"
    unfolding demo_nbsp_stack_lines .
  from demo_frame_line a1 a2 b1 b2 show ?thesis by (intro conjI)
qed

text \<open>
  C6 as it is stated fails twice. On a stack whose message has a second, indented line
  and which has a blank line and ends in a newline: of the three lines that have neither
  shape one raw entry is returned, and it is the trimmed line, not the line. And on the
  line \<open>at   (f:1:2)\<close>, which has the first shape with a blank as its function text: the
  entry has the file, the line and the column, and an empty function.
\<close>

theorem parseStack_raw_counterexample:
  "parseStack (Some (''Error: boom'' @ NL # ''  caused by x'' @ NL # NL # ''    at f (/a.js:1:2)'' @ [NL])) =
     [Raw ''caused by x'', Frame ''f'' ''/a.js'' ''1'' ''2''] \<and>
   tl (split_nl (''Error: boom'' @ NL # ''  caused by x'' @ NL # NL # ''    at f (/a.js:1:2)'' @ [NL])) =
     [''  caused by x'', [], ''    at f (/a.js:1:2)'', []] \<and>
   parseStack (Some (''Error: boom'' @ NL # ''at   (f:1:2)'')) = [Frame [] ''f'' ''1'' ''2'']"
  by code_simp

subsection \<open>A write during which no call fails\<close>

lemma show_nat_nonempty: "show_nat n \<noteq> []"
  by (subst show_nat.simps) simp

lemma rotated_neq_log_file: "rotated_file e w t \<noteq> log_file e w t"
proof
  assume "rotated_file e w t = log_file e w t"
  then have "length (rotated_file e w t) = length (log_file e w t)" by simp
  then show False using show_nat_nonempty [of "epochMillis (clock w)"]
    by (simp add: rotated_file_def log_file_def path_join_def)
qed

lemma log_file_neq_day_dir: "log_file e w t \<noteq> day_dir e w"
proof
  assume "log_file e w t = day_dir e w"
  then have "length (log_file e w t) = length (day_dir e w)" by simp
  then show False by (simp add: log_file_def path_join_def)
qed

lemma todayDir_no_fault:
  "faults w = [] \<Longrightarrow>
   todayDir e w =
     (Inr (day_dir e w),
      if existsSync (day_dir e w) w then w
      else w\<lparr>dirs := insert (day_dir e w) (dirs w), oplog := oplog w @ [Mkdir (day_dir e w)]\<rparr>)"
  by (simp add: todayDir_def day_dir_def io_defs fs_defs Let_def)

lemma statSync_no_fault:
  "faults w = [] \<Longrightarrow> files w p = Some c \<Longrightarrow> statSync_size p w = (Inr (length c), w)"
  by (simp add: fs_defs)

lemma renameSync_no_fault:
  "faults w = [] \<Longrightarrow> files w p = Some c \<Longrightarrow>
   renameSync p q w =
     (Inr (), w\<lparr>files := ((files w)(p := None))(q \<mapsto> c), oplog := oplog w @ [Rename p q]\<rparr>)"
  by (simp add: fs_defs)

lemma appendFileSync_no_fault:
  "faults w = [] \<Longrightarrow> p \<notin> dirs w \<Longrightarrow>
   appendFileSync p d w =
     (Inr (), w\<lparr>files := (files w)(p \<mapsto> (case files w p of None \<Rightarrow> [] | Some c \<Rightarrow> c) @ d),
                 oplog := oplog w @ [Append p d]\<rparr>)"
  by (simp add: fs_defs)

lemma appends_of_append: "appends_of (xs @ ys) = appends_of xs @ appends_of ys"
  by (induction xs rule: appends_of.induct) simp_all

lemma writeToFile_try_no_fault:
  assumes "faults w = []" and "log_file e w t \<notin> dirs w"
  shows "\<exists>w'. writeToFile_try e t m w = (Inr (), w') \<and> faults w' = [] \<and>
           dirs w' = (if existsSync (day_dir e w) w then dirs w else insert (day_dir e w) (dirs w)) \<and>
           files w' =
             (case files w (log_file e w t) of
                None \<Rightarrow> (files w)(log_file e w t \<mapsto> m @ [NL])
              | Some c \<Rightarrow>
                  if length c > MAX_LOG_SIZE
                  then (files w)(rotated_file e w t \<mapsto> c, log_file e w t \<mapsto> m @ [NL])
                  else (files w)(log_file e w t \<mapsto> c @ m @ [NL])) \<and>
           appends w' = appends w @ [(log_file e w t, m @ [NL])]"
proof -
  define w1 where "w1 = (if existsSync (day_dir e w) w then w
      else w\<lparr>dirs := insert (day_dir e w) (dirs w), oplog := oplog w @ [Mkdir (day_dir e w)]\<rparr>)"
  have t1: "todayDir e w = (Inr (day_dir e w), w1)"
    unfolding w1_def using assms(1) by (rule todayDir_no_fault)
  have w1: "faults w1 = []" "files w1 = files w" "clock w1 = clock w" "appends w1 = appends w"
    "log_file e w t \<notin> dirs w1"
    "dirs w1 = (if existsSync (day_dir e w) w then dirs w else insert (day_dir e w) (dirs w))"
    using assms log_file_neq_day_dir [of e w t]
    by (auto simp: w1_def appends_def appends_of_append)
  have ex_dir: "existsSync (day_dir e w) w1"
    by (auto simp: w1_def existsSync_def)
  have ex_file: "existsSync (log_file e w t) w1 \<longleftrightarrow> files w (log_file e w t) \<noteq> None"
    using w1 by (simp add: existsSync_def)
  have t2: "todayDir e w1 = (Inr (day_dir e w), w1)"
    using todayDir_no_fault [of w1 e] w1 ex_dir by (simp add: day_dir_def)
  have body: "writeToFile_try e t m w =
     io_bind
       (\<lambda>w. if existsSync (log_file e w1 t) w
            then io_bind (statSync_size (log_file e w1 t)) (\<lambda>size w'.
                   if size > MAX_LOG_SIZE
                   then io_bind (todayDir e) (\<lambda>d'.
                          renameSync (log_file e w1 t)
                            (path_join d' (t @ ''.'' @ show_nat (epochMillis (clock w')) @ ''.log''))) w'
                   else io_return () w') w
            else io_return () w)
       (\<lambda>u. appendFileSync (log_file e w1 t) (m @ [NL])) w1"
    unfolding writeToFile_try_def
    by (simp add: io_bind_def [of "todayDir e"] t1 Let_def log_file_def day_dir_def w1 cong: if_cong)
  have lf: "log_file e w1 t = log_file e w t" "rotated_file e w1 t = rotated_file e w t"
    by (simp_all add: log_file_def rotated_file_def day_dir_def w1)
  show ?thesis
  proof (cases "files w (log_file e w t)")
    case None
    have "writeToFile_try e t m w = appendFileSync (log_file e w t) (m @ [NL]) w1"
      unfolding body lf using None ex_file by (simp add: io_bind_def io_return_def)
    then show ?thesis
      using None w1 by (simp add: appendFileSync_no_fault appends_def appends_of_append)
  next
    case (Some c)
    have st: "statSync_size (log_file e w t) w1 = (Inr (length c), w1)"
      using statSync_no_fault [of w1 "log_file e w t" c] w1 Some by simp
    show ?thesis
    proof (cases "length c > MAX_LOG_SIZE")
      case True
      define w2 where "w2 = w1\<lparr>files := ((files w1)(log_file e w t := None))(rotated_file e w t \<mapsto> c),
          oplog := oplog w1 @ [Rename (log_file e w t) (rotated_file e w t)]\<rparr>"
      have rn: "renameSync (log_file e w t) (rotated_file e w t) w1 = (Inr (), w2)"
        unfolding w2_def using renameSync_no_fault [of w1 "log_file e w t" c] w1 Some by simp
      have rn': "renameSync (log_file e w t)
          (path_join (day_dir e w) (t @ CHR ''.'' # show_nat (epochMillis (clock w)) @ ''.log'')) w1 = (Inr (), w2)"
        using rn by (simp add: rotated_file_def)
      have "writeToFile_try e t m w = appendFileSync (log_file e w t) (m @ [NL]) w2"
        unfolding body lf using Some ex_file True
        by (simp add: io_bind_def st t2 w1 rn')
      moreover have "faults w2 = []" "log_file e w t \<notin> dirs w2"
        "files w2 (log_file e w t) = None" "appends w2 = appends w" "dirs w2 = dirs w1"
        using w1 rotated_neq_log_file [of e w t]
        by (auto simp: w2_def appends_def appends_of_append)
      ultimately show ?thesis
        using Some True w1 rotated_neq_log_file [of e w t]
        by (simp add: appendFileSync_no_fault appends_def appends_of_append w2_def fun_upd_twist)
    next
      case False
      have "writeToFile_try e t m w = appendFileSync (log_file e w t) (m @ [NL]) w1"
        unfolding body lf using Some ex_file False
        by (simp add: io_bind_def io_return_def st)
      then show ?thesis
        using Some False w1 by (simp add: appendFileSync_no_fault appends_def appends_of_append)
    qed
  qed
qed

subsection \<open>What a call of record leaves, and the counters\<close>

lemma writeToFile_eq: "writeToFile e t m w = (Inr (), snd (writeToFile e t m w))"
  using writeToFile_returns [of e t m w] by (simp add: prod_eq_iff)

lemma io_bind_writeToFile: "io_bind (writeToFile e t m) f w = f () (snd (writeToFile e t m w))"
  by (subst io_bind_def, subst writeToFile_eq) simp

lemma timestamp_clock: "clock w = clock w' \<Longrightarrow> timestamp w = timestamp w'"
  by (simp add: timestamp_def)

lemma messages_clock: "clock w = clock w' \<Longrightarrow> messages e t l err opts w = messages e t l err opts w'"
  by (simp add: messages_def timestamp_clock [of w w'])

lemma messages_count_entry [simp]:
  "messages e t l err opts (count_entry t' w) = messages e t l err opts w"
  by (rule messages_clock) (simp add: count_entry_def)

lemma record_unfold:
  "Logger_record e type layer err opts w =
     (if \<not> production e \<and> type = Error \<and> \<not> opt_noThrow opts then Inl (rethrown e err) else Inr (),
      (if shouldLog e type then console_log (colorize type (fst (messages e type layer err opts w))) else id)
        (write_both e type (snd (messages e type layer err opts w)) (count_entry type w)))"
  unfolding Logger_record_def Let_def io_bind_writeToFile
  by (cases err) (simp_all add: io_bind_def io_return_def rethrown_def shouldLog_def write_both_def)

lemma writeToFile_frame_snd:
  "logStats (snd (writeToFile e t m w)) = logStats w"
  "stdout (snd (writeToFile e t m w)) = stdout w"
  "clock (snd (writeToFile e t m w)) = clock w"
  using writeToFile_frame [OF prod.collapse [symmetric], of e t m w] by simp_all

lemma write_both_frame:
  "logStats (write_both e type m w) = logStats w"
  "stdout (write_both e type m w) = stdout w"
  "clock (write_both e type m w) = clock w"
  unfolding write_both_def by (simp_all add: writeToFile_frame_snd)

lemma record_outcome:
  "fst (Logger_record e type layer err opts w) =
     (if \<not> production e \<and> type = Error \<and> \<not> opt_noThrow opts then Inl (rethrown e err) else Inr ())"
  by (simp add: record_unfold)

lemma record_stats:
  "logStats (snd (Logger_record e type layer err opts w)) = (logStats w)(type := logStats w type + 1)"
  by (simp add: record_unfold console_log_def write_both_frame count_entry_def)

lemma record_stdout:
  "stdout (snd (Logger_record e type layer err opts w)) =
     stdout w @ (if shouldLog e type
                 then [ConsoleLog (colorize type (fst (messages e type layer err opts w)))] else [])"
  by (simp add: record_unfold console_log_def write_both_frame count_entry_def)

lemma record_files:
  "files (snd (Logger_record e type layer err opts w)) =
     files (write_both e type (snd (messages e type layer err opts w)) (count_entry type w))"
  "oplog (snd (Logger_record e type layer err opts w)) =
     oplog (write_both e type (snd (messages e type layer err opts w)) (count_entry type w))"
  "stderr (snd (Logger_record e type layer err opts w)) =
     stderr (write_both e type (snd (messages e type layer err opts w)) (count_entry type w))"
  by (simp_all add: record_unfold console_log_def)

lemma dispatch_record:
  "dispatch e sev layer p opts w =
     Logger_record e sev layer p (if sev = Error then opts\<lparr>opt_trace := True\<rparr> else opts) w"
  by (cases sev)
     (simp_all add: Logger_info_def Logger_debug_def Logger_log_def Logger_warning_def
        Logger_error_def Logger_all_def)

lemma dispatch_stats:
  "logStats (snd (dispatch e sev layer p opts w)) = (logStats w)(sev := logStats w sev + 1)"
  by (simp add: dispatch_record record_stats)

lemma run_calls_stats:
  "logStats (run_calls e cs w) sev = logStats w sev + calls_with sev cs"
proof (induction cs arbitrary: w)
  case Nil
  then show ?case by (simp add: calls_with_def)
next
  case (Cons c cs)
  obtain d s layer p opts where c: "c = (d, s, layer, p, opts)" by (cases c) auto
  show ?case
    unfolding c using Cons.IH [of "snd (dispatch e s layer p opts (w\<lparr>clock := d\<rparr>))"]
    by (simp add: dispatch_stats calls_with_def severity_of_def)
qed

lemma calls_partition:
  "calls_with Info cs + calls_with Debug cs + calls_with Log cs + calls_with Warning cs
     + calls_with Error cs + calls_with All cs = length cs"
proof (induction cs)
  case Nil
  then show ?case by (simp add: calls_with_def)
next
  case (Cons c cs)
  then show ?case by (cases "severity_of c") (simp_all add: calls_with_def)
qed

text \<open>
  C1, as amended. After any sequence of calls of \<open>info\<close>, \<open>debug\<close>, \<open>log\<close>, \<open>warning\<close>,
  \<open>error\<close> and \<open>all\<close> that starts with all counters at zero, the counter of each of the six
  severities is the number of calls of that severity; the counter \<open>all\<close> counts the calls
  of \<open>all\<close> only, and it is the six counters together that add up to the number of calls.
\<close>

theorem stats_count_calls:
  "Logger_stats (run_calls e cs (Logger_clearStats w)) sev = calls_with sev cs \<and>
   Logger_stats (run_calls e cs (Logger_clearStats w)) Info
     + Logger_stats (run_calls e cs (Logger_clearStats w)) Debug
     + Logger_stats (run_calls e cs (Logger_clearStats w)) Log
     + Logger_stats (run_calls e cs (Logger_clearStats w)) Warning
     + Logger_stats (run_calls e cs (Logger_clearStats w)) Error
     + Logger_stats (run_calls e cs (Logger_clearStats w)) All = length cs"
  by (simp add: Logger_stats_def run_calls_stats Logger_clearStats_def calls_partition)

subsection \<open>Counters and sizes\<close>

lemma demo_calls_with:
  "calls_with Info demo_calls = 2" "calls_with All demo_calls = 1" "length demo_calls = 3"
  by (simp_all add: calls_with_def demo_calls_def severity_of_def)

theorem stats_count_calls_witness:
  "Logger_stats (run_calls demo_env demo_calls (Logger_clearStats demo_world)) Info = 2 \<and>
   Logger_stats (run_calls demo_env demo_calls (Logger_clearStats demo_world)) All = 1"
  using stats_count_calls [of demo_env demo_calls demo_world Info]
    stats_count_calls [of demo_env demo_calls demo_world All]
  by (simp add: demo_calls_with)

text \<open>
  C1 as it is stated fails: after two calls of \<open>info\<close> and one of \<open>all\<close> the counter
  \<open>all\<close> is 1, not the number of calls.
\<close>

theorem stats_all_counterexample:
  "Logger_stats (run_calls demo_env demo_calls (Logger_clearStats demo_world)) All = 1 \<and>
   length demo_calls = 3"
  by (simp add: Logger_stats_def run_calls_stats Logger_clearStats_def demo_calls_with)

lemma writeToFile_no_fault:
  assumes "faults w = []" and "log_file e w t \<notin> dirs w"
  shows "faults (snd (writeToFile e t m w)) = []"
    and "dirs (snd (writeToFile e t m w)) =
           (if existsSync (day_dir e w) w then dirs w else insert (day_dir e w) (dirs w))"
    and "files (snd (writeToFile e t m w)) =
           (case files w (log_file e w t) of
              None \<Rightarrow> (files w)(log_file e w t \<mapsto> m @ [NL])
            | Some c \<Rightarrow>
                if length c > MAX_LOG_SIZE
                then (files w)(rotated_file e w t \<mapsto> c, log_file e w t \<mapsto> m @ [NL])
                else (files w)(log_file e w t \<mapsto> c @ m @ [NL]))"
    and "appends (snd (writeToFile e t m w)) = appends w @ [(log_file e w t, m @ [NL])]"
    and "stderr (snd (writeToFile e t m w)) = stderr w"
proof -
  from writeToFile_try_no_fault [OF assms, of m] obtain w' where
    w': "writeToFile_try e t m w = (Inr (), w')" "faults w' = []"
    "dirs w' = (if existsSync (day_dir e w) w then dirs w else insert (day_dir e w) (dirs w))"
    "files w' =
       (case files w (log_file e w t) of
          None \<Rightarrow> (files w)(log_file e w t \<mapsto> m @ [NL])
        | Some c \<Rightarrow>
            if length c > MAX_LOG_SIZE
            then (files w)(rotated_file e w t \<mapsto> c, log_file e w t \<mapsto> m @ [NL])
            else (files w)(log_file e w t \<mapsto> c @ m @ [NL]))"
    "appends w' = appends w @ [(log_file e w t, m @ [NL])]"
    by blast
  have eq: "snd (writeToFile e t m w) = w'"
    by (simp add: writeToFile_def io_catch_def w'(1))
  show "faults (snd (writeToFile e t m w)) = []" unfolding eq by (rule w')
  show "dirs (snd (writeToFile e t m w)) =
           (if existsSync (day_dir e w) w then dirs w else insert (day_dir e w) (dirs w))"
    unfolding eq by (rule w')
  show "files (snd (writeToFile e t m w)) =
           (case files w (log_file e w t) of
              None \<Rightarrow> (files w)(log_file e w t \<mapsto> m @ [NL])
            | Some c \<Rightarrow>
                if length c > MAX_LOG_SIZE
                then (files w)(rotated_file e w t \<mapsto> c, log_file e w t \<mapsto> m @ [NL])
                else (files w)(log_file e w t \<mapsto> c @ m @ [NL]))"
    unfolding eq by (rule w')
  show "appends (snd (writeToFile e t m w)) = appends w @ [(log_file e w t, m @ [NL])]"
    unfolding eq by (rule w')
  show "stderr (snd (writeToFile e t m w)) = stderr w"
    by (simp add: writeToFile_stderr w'(1))
qed

text \<open>
  C2, as amended. When no call of the file system fails and the canonical name is not a
  directory, a write to a sink whose file is already larger than the maximum first
  renames that file to the name with the epoch milliseconds and then starts a fresh
  file with the new line; a write to a file that is not larger than the maximum appends
  the line to it, whatever the length of the line. So after a write the file at the
  canonical name is at most the maximum plus the line just written (the message and its
  newline), and can be larger than the maximum by that much.
\<close>

theorem writeToFile_size:
  assumes "faults w = []" and "log_file e w t \<notin> dirs w"
  shows "(file_size w (log_file e w t) > MAX_LOG_SIZE \<longrightarrow>
            files (snd (writeToFile e t m w)) (rotated_file e w t) = files w (log_file e w t) \<and>
            files (snd (writeToFile e t m w)) (log_file e w t) = Some (m @ [NL])) \<and>
         (file_size w (log_file e w t) \<le> MAX_LOG_SIZE \<longrightarrow>
            files (snd (writeToFile e t m w)) (log_file e w t) =
              Some ((case files w (log_file e w t) of None \<Rightarrow> [] | Some c \<Rightarrow> c) @ m @ [NL])) \<and>
         file_size (snd (writeToFile e t m w)) (log_file e w t) \<le> MAX_LOG_SIZE + length (m @ [NL])"
  using rotated_neq_log_file [of e w t]
  by (auto simp: writeToFile_no_fault(3) [OF assms] file_size_def split: option.splits)

lemma demo_paths:
  "log_file demo_env demo_full t = ''/srv/logs/2025-01-01/'' @ t @ ''.log''"
  "log_file demo_env demo_over t = ''/srv/logs/2025-01-01/'' @ t @ ''.log''"
  "log_file demo_env demo_world t = ''/srv/logs/2025-01-01/'' @ t @ ''.log''"
  "log_file demo_env demo_faulty t = ''/srv/logs/2025-01-01/'' @ t @ ''.log''"
  "day_dir demo_env demo_world = ''/srv/logs/2025-01-01''"
  by (simp_all add: log_file_def day_dir_def path_join_def demo_env_def demo_full_def demo_over_def
        demo_world_def demo_date_def demo_faulty_def)

theorem writeToFile_size_witness:
  "faults demo_over = [] \<and> log_file demo_env demo_over ''info'' \<notin> dirs demo_over \<and>
   file_size demo_over (log_file demo_env demo_over ''info'') > MAX_LOG_SIZE \<and>
   files (snd (writeToFile demo_env ''info'' ''m'' demo_over)) (rotated_file demo_env demo_over ''info'') =
     Some (replicate (MAX_LOG_SIZE + 1) CHR ''x'') \<and>
   files (snd (writeToFile demo_env ''info'' ''m'' demo_over)) (log_file demo_env demo_over ''info'') =
     Some (''m'' @ [NL])"
  using writeToFile_size [of demo_over demo_env "''info''" "''m''"]
  by (simp add: demo_paths file_size_def) (simp add: demo_over_def demo_world_def)

text \<open>
  C2 as it is stated fails: a write of \<open>m\<close> to an \<open>info.log\<close> of exactly the maximal size
  is not preceded by a rename, and leaves a file two bytes larger than the maximum.
\<close>

theorem writeToFile_size_counterexample:
  "file_size demo_full (log_file demo_env demo_full ''info'') \<le> MAX_LOG_SIZE \<and>
   file_size (snd (writeToFile demo_env ''info'' ''m'' demo_full)) (log_file demo_env demo_full ''info'') =
     MAX_LOG_SIZE + 2 \<and>
   files (snd (writeToFile demo_env ''info'' ''m'' demo_full)) (rotated_file demo_env demo_full ''info'') = None"
proof -
  have f: "faults demo_full = []" by (simp add: demo_full_def demo_world_def)
  have d: "log_file demo_env demo_full ''info'' \<notin> dirs demo_full"
    by (simp add: demo_paths) (simp add: demo_full_def)
  have c: "files demo_full (log_file demo_env demo_full ''info'') = Some (replicate MAX_LOG_SIZE CHR ''x'')"
    by (simp add: demo_paths) (simp add: demo_full_def)
  have r: "files demo_full (rotated_file demo_env demo_full ''info'') = None"
    using rotated_neq_log_file [of demo_env demo_full "''info''"]
    by (simp add: demo_paths) (simp add: demo_full_def)
  show ?thesis
    using rotated_neq_log_file [of demo_env demo_full "''info''"] r
    by (simp add: writeToFile_no_fault(3) [OF f d] c file_size_def)
qed

subsection \<open>A write during which a call fails\<close>

lemma appends_of_snoc [simp]:
  "appends_of (evs @ [Mkdir p]) = appends_of evs"
  "appends_of (evs @ [Rename p q]) = appends_of evs"
  "appends_of (evs @ [Append p d]) = appends_of evs @ [(p, d)]"
  by (simp_all add: appends_of_append)

lemma mkdirSync_appends: "appends (snd (mkdirSync p w)) = appends w"
  by (simp add: fs_defs appends_def split: list.splits option.splits)

lemma statSync_appends: "appends (snd (statSync_size p w)) = appends w"
  by (simp add: fs_defs appends_def split: list.splits option.splits)

lemma renameSync_appends: "appends (snd (renameSync p q w)) = appends w"
  by (simp add: fs_defs appends_def split: list.splits option.splits)

lemma appendFileSync_fail_appends:
  "fst (appendFileSync p d w) = Inl x \<Longrightarrow> appends (snd (appendFileSync p d w)) = appends w"
  by (auto simp: fs_defs appends_def split: list.splits option.splits if_splits)

lemma todayDir_appends: "appends (snd (todayDir e w)) = appends w"
  unfolding todayDir_def Let_def io_defs
  using mkdirSync_appends [of "path_join (LOG_DIR e) (isoDate (clock w))" w]
  by (auto split: prod.splits sum.splits)

lemma rotate_step_appends: "appends (snd (rotate_step e t p w)) = appends w"
proof (cases "statSync_size p w")
  case (Pair r w1)
  have a1: "appends w1 = appends w" using statSync_appends [of p w] Pair by simp
  show ?thesis
  proof (cases r)
    case (Inl x)
    then show ?thesis using Pair a1 by (simp add: rotate_step_def io_defs)
  next
    case (Inr size)
    show ?thesis
    proof (cases "todayDir e w1")
      case (Pair r2 w2)
      have a2: "appends w2 = appends w" using todayDir_appends [of e w1] Pair a1 by simp
      show ?thesis
        using \<open>statSync_size p w = (r, w1)\<close> Inr Pair a1 a2 renameSync_appends [of p _ w2]
        by (cases r2) (simp_all add: rotate_step_def io_defs Let_def)
    qed
  qed
qed

lemma writeToFile_try_rotate:
  "writeToFile_try e t m =
     io_bind (todayDir e) (\<lambda>d. io_bind (rotate_step e t (path_join d (t @ ''.log'')))
       (\<lambda>u. appendFileSync (path_join d (t @ ''.log'')) (m @ [NL])))"
  unfolding writeToFile_try_def rotate_step_def Let_def by (rule refl)

lemma try_fail_appends:
  assumes "fst (writeToFile_try e t m w) = Inl x"
  shows "appends (snd (writeToFile_try e t m w)) = appends w"
proof (cases "todayDir e w")
  case (Pair r w1)
  have a1: "appends w1 = appends w" using todayDir_appends [of e w] Pair by simp
  show ?thesis
  proof (cases r)
    case (Inl err)
    then show ?thesis using Pair a1 by (simp add: writeToFile_try_rotate io_bind_def)
  next
    case (Inr d)
    show ?thesis
    proof (cases "rotate_step e t (path_join d (t @ ''.log'')) w1")
      case (Pair r2 w2)
      have a2: "appends w2 = appends w"
        using rotate_step_appends [of e t "path_join d (t @ ''.log'')" w1] Pair a1 by simp
      show ?thesis
      proof (cases r2)
        case (Inl err)
        then show ?thesis using \<open>todayDir e w = (r, w1)\<close> Inr Pair a2
          by (simp add: writeToFile_try_rotate io_bind_def)
      next
        case (Inr u)
        have "writeToFile_try e t m w = appendFileSync (path_join d (t @ ''.log'')) (m @ [NL]) w2"
          using \<open>todayDir e w = (r, w1)\<close> \<open>r = Inr d\<close> Pair Inr
          by (simp add: writeToFile_try_rotate io_bind_def)
        then show ?thesis
          using assms appendFileSync_fail_appends [of "path_join d (t @ ''.log'')" "m @ [NL]" w2 x] a2
          by simp
      qed
    qed
  qed
qed

lemma writeToFile_fail:
  assumes "fst (writeToFile_try e t m w) = Inl x"
  shows "stderr (snd (writeToFile e t m w)) = stderr w @ [''Failed to write log: '' @ x]"
    and "appends (snd (writeToFile e t m w)) = appends w"
proof -
  show "stderr (snd (writeToFile e t m w)) = stderr w @ [''Failed to write log: '' @ x]"
    using assms by (simp add: writeToFile_stderr)
  obtain w' where w': "writeToFile_try e t m w = (Inl x, w')"
    using assms by (cases "writeToFile_try e t m w") auto
  then have "appends w' = appends w" using try_fail_appends [OF assms] by simp
  then show "appends (snd (writeToFile e t m w)) = appends w"
    by (simp add: writeToFile_def io_catch_def io_return_def report_failure_def w' appends_def)
qed

lemma stat_failure_reported:
  "todayDir e w = (Inr d, w1) \<Longrightarrow> existsSync (path_join d (t @ ''.log'')) w1 \<Longrightarrow>
   statSync_size (path_join d (t @ ''.log'')) w1 = (Inl x, w2) \<Longrightarrow>
   writeToFile e t m w = (Inr (), report_failure x w2)"
  by (simp add: writeToFile_def writeToFile_try_def io_defs Let_def)

lemma rename_failure_reported:
  "todayDir e w = (Inr d, w1) \<Longrightarrow> existsSync (path_join d (t @ ''.log'')) w1 \<Longrightarrow>
   statSync_size (path_join d (t @ ''.log'')) w1 = (Inr n, w2) \<Longrightarrow> MAX_LOG_SIZE < n \<Longrightarrow>
   todayDir e w2 = (Inr d', w3) \<Longrightarrow>
   renameSync (path_join d (t @ ''.log''))
     (path_join d' (t @ ''.'' @ show_nat (epochMillis (clock w2)) @ ''.log'')) w3 = (Inl x, w4) \<Longrightarrow>
   writeToFile e t m w = (Inr (), report_failure x w4)"
  by (simp add: writeToFile_def writeToFile_try_def io_defs Let_def)

lemma append_failure_reported:
  "todayDir e w = (Inr d, w1) \<Longrightarrow> \<not> existsSync (path_join d (t @ ''.log'')) w1 \<Longrightarrow>
   appendFileSync (path_join d (t @ ''.log'')) (m @ [NL]) w1 = (Inl x, w2) \<Longrightarrow>
   writeToFile e t m w = (Inr (), report_failure x w2)"
  "todayDir e w = (Inr d, w1) \<Longrightarrow> existsSync (path_join d (t @ ''.log'')) w1 \<Longrightarrow>
   statSync_size (path_join d (t @ ''.log'')) w1 = (Inr n, w2) \<Longrightarrow> n \<le> MAX_LOG_SIZE \<Longrightarrow>
   appendFileSync (path_join d (t @ ''.log'')) (m @ [NL]) w2 = (Inl x, w3) \<Longrightarrow>
   writeToFile e t m w = (Inr (), report_failure x w3)"
  "todayDir e w = (Inr d, w1) \<Longrightarrow> existsSync (path_join d (t @ ''.log'')) w1 \<Longrightarrow>
   statSync_size (path_join d (t @ ''.log'')) w1 = (Inr n, w2) \<Longrightarrow> MAX_LOG_SIZE < n \<Longrightarrow>
   todayDir e w2 = (Inr d', w3) \<Longrightarrow>
   renameSync (path_join d (t @ ''.log''))
     (path_join d' (t @ ''.'' @ show_nat (epochMillis (clock w2)) @ ''.log'')) w3 = (Inr (), w4) \<Longrightarrow>
   appendFileSync (path_join d (t @ ''.log'')) (m @ [NL]) w4 = (Inl x, w5) \<Longrightarrow>
   writeToFile e t m w = (Inr (), report_failure x w5)"
  by (simp_all add: writeToFile_def writeToFile_try_def io_defs Let_def)

lemma first_fault_reported:
  "faults w = Some x # fs \<Longrightarrow> writeToFile e t m w = (Inr (), report_failure x (w\<lparr>faults := fs\<rparr>))"
  by (simp add: writeToFile_def writeToFile_try_def todayDir_def io_defs fs_defs Let_def existsSync_def)

text \<open>
  C8. Whatever calls of the file system fail, \<open>writeToFile\<close> returns without throwing;
  when its block has thrown, the message of the failure is printed on the error stream
  (and nothing was appended). The block throws, and \<open>writeToFile\<close> returns with the
  message printed, when its call of \<open>statSync\<close> fails, when its call of \<open>renameSync\<close>
  fails, and when its call of \<open>appendFileSync\<close> fails, be it made on a sink that has
  no file yet, after the size was found small enough, or after the rotation; so it does
  whenever the first call it makes of the file system fails. A call of \<open>record\<close> then
  goes on as it does otherwise: it throws only what \<open>record\<close> itself throws for an error
  outside production mode, and it prints exactly the line its rule for the console
  prints.
\<close>

theorem write_failure_contained:
  "fst (writeToFile e t m w) = Inr () \<and>
   (\<forall>x. fst (writeToFile_try e t m w) = Inl x \<longrightarrow>
      stderr (snd (writeToFile e t m w)) = stderr w @ [''Failed to write log: '' @ x] \<and>
      appends (snd (writeToFile e t m w)) = appends w) \<and>
   (\<forall>d w1 x w2.
      todayDir e w = (Inr d, w1) \<longrightarrow> existsSync (path_join d (t @ ''.log'')) w1 \<longrightarrow>
      statSync_size (path_join d (t @ ''.log'')) w1 = (Inl x, w2) \<longrightarrow>
      writeToFile e t m w = (Inr (), report_failure x w2)) \<and>
   (\<forall>d w1 n w2 d' w3 x w4.
      todayDir e w = (Inr d, w1) \<longrightarrow> existsSync (path_join d (t @ ''.log'')) w1 \<longrightarrow>
      statSync_size (path_join d (t @ ''.log'')) w1 = (Inr n, w2) \<longrightarrow> MAX_LOG_SIZE < n \<longrightarrow>
      todayDir e w2 = (Inr d', w3) \<longrightarrow>
      renameSync (path_join d (t @ ''.log''))
        (path_join d' (t @ ''.'' @ show_nat (epochMillis (clock w2)) @ ''.log'')) w3 = (Inl x, w4) \<longrightarrow>
      writeToFile e t m w = (Inr (), report_failure x w4)) \<and>
   (\<forall>d w1 x w2.
      todayDir e w = (Inr d, w1) \<longrightarrow> \<not> existsSync (path_join d (t @ ''.log'')) w1 \<longrightarrow>
      appendFileSync (path_join d (t @ ''.log'')) (m @ [NL]) w1 = (Inl x, w2) \<longrightarrow>
      writeToFile e t m w = (Inr (), report_failure x w2)) \<and>
   (\<forall>d w1 n w2 x w3.
      todayDir e w = (Inr d, w1) \<longrightarrow> existsSync (path_join d (t @ ''.log'')) w1 \<longrightarrow>
      statSync_size (path_join d (t @ ''.log'')) w1 = (Inr n, w2) \<longrightarrow> n \<le> MAX_LOG_SIZE \<longrightarrow>
      appendFileSync (path_join d (t @ ''.log'')) (m @ [NL]) w2 = (Inl x, w3) \<longrightarrow>
      writeToFile e t m w = (Inr (), report_failure x w3)) \<and>
   (\<forall>d w1 n w2 d' w3 w4 x w5.
      todayDir e w = (Inr d, w1) \<longrightarrow> existsSync (path_join d (t @ ''.log'')) w1 \<longrightarrow>
      statSync_size (path_join d (t @ ''.log'')) w1 = (Inr n, w2) \<longrightarrow> MAX_LOG_SIZE < n \<longrightarrow>
      todayDir e w2 = (Inr d', w3) \<longrightarrow>
      renameSync (path_join d (t @ ''.log''))
        (path_join d' (t @ ''.'' @ show_nat (epochMillis (clock w2)) @ ''.log'')) w3 = (Inr (), w4) \<longrightarrow>
      appendFileSync (path_join d (t @ ''.log'')) (m @ [NL]) w4 = (Inl x, w5) \<longrightarrow>
      writeToFile e t m w = (Inr (), report_failure x w5)) \<and>
   (\<forall>x fs. faults w = Some x # fs \<longrightarrow>
      writeToFile e t m w = (Inr (), report_failure x (w\<lparr>faults := fs\<rparr>))) \<and>
   fst (Logger_record e type layer err opts w) =
     (if \<not> production e \<and> type = Error \<and> \<not> opt_noThrow opts then Inl (rethrown e err) else Inr ()) \<and>
   stdout (snd (Logger_record e type layer err opts w)) =
     stdout w @ (if shouldLog e type
                 then [ConsoleLog (colorize type (fst (messages e type layer err opts w)))] else [])"
proof (intro conjI allI impI)
  show "fst (writeToFile e t m w) = Inr ()" by (rule writeToFile_returns)
  show "fst (Logger_record e type layer err opts w) =
     (if \<not> production e \<and> type = Error \<and> \<not> opt_noThrow opts then Inl (rethrown e err) else Inr ())"
    by (rule record_outcome)
  show "stdout (snd (Logger_record e type layer err opts w)) =
     stdout w @ (if shouldLog e type
                 then [ConsoleLog (colorize type (fst (messages e type layer err opts w)))] else [])"
    by (rule record_stdout)
qed (blast intro: writeToFile_fail stat_failure_reported rename_failure_reported
      append_failure_reported first_fault_reported)+

subsection \<open>The failing calls, on concrete worlds\<close>

lemma demo_today:
  "todayDir demo_env demo_stat_fails = (Inr ''/srv/logs/2025-01-01'', demo_stat_fails)"
  "todayDir demo_env demo_rename_fails = (Inr ''/srv/logs/2025-01-01'', demo_rename_fails)"
  "todayDir demo_env (demo_rename_fails\<lparr>faults := [Some ''EPERM: operation not permitted, rename'']\<rparr>) =
     (Inr ''/srv/logs/2025-01-01'',
      demo_rename_fails\<lparr>faults := [Some ''EPERM: operation not permitted, rename'']\<rparr>)"
  "todayDir demo_env demo_append_fails = (Inr ''/srv/logs/2025-01-01'', demo_append_fails)"
  "todayDir demo_env demo_dir_sink = (Inr ''/srv/logs/2025-01-01'', demo_dir_sink)"
  by (simp_all add: todayDir_def io_defs existsSync_def path_join_def Let_def demo_stat_fails_def
        demo_rename_fails_def demo_append_fails_def demo_dir_sink_def demo_day_def demo_full_def
        demo_over_def demo_world_def demo_env_def demo_date_def)

lemma demo_exists:
  "existsSync (path_join ''/srv/logs/2025-01-01'' (''info'' @ ''.log'')) demo_stat_fails"
  "existsSync (path_join ''/srv/logs/2025-01-01'' (''info'' @ ''.log'')) demo_rename_fails"
  "\<not> existsSync (path_join ''/srv/logs/2025-01-01'' (''info'' @ ''.log'')) demo_append_fails"
  "existsSync (path_join ''/srv/logs/2025-01-01'' (''info'' @ ''.log'')) demo_dir_sink"
  by (simp_all add: existsSync_def path_join_def demo_stat_fails_def demo_rename_fails_def
        demo_append_fails_def demo_dir_sink_def demo_day_def demo_full_def demo_over_def
        demo_world_def)

lemma demo_stat:
  "statSync_size (path_join ''/srv/logs/2025-01-01'' (''info'' @ ''.log'')) demo_stat_fails =
     (Inl ''EACCES: permission denied, stat'', demo_stat_fails\<lparr>faults := []\<rparr>)"
  "statSync_size (path_join ''/srv/logs/2025-01-01'' (''info'' @ ''.log'')) demo_rename_fails =
     (Inr (MAX_LOG_SIZE + 1),
      demo_rename_fails\<lparr>faults := [Some ''EPERM: operation not permitted, rename'']\<rparr>)"
  "statSync_size (path_join ''/srv/logs/2025-01-01'' (''info'' @ ''.log'')) demo_dir_sink =
     (Inr 4096, demo_dir_sink)"
  by (simp_all add: fs_defs path_join_def demo_stat_fails_def demo_rename_fails_def
        demo_dir_sink_def demo_full_def demo_over_def demo_world_def)

lemma demo_rename:
  "renameSync (path_join ''/srv/logs/2025-01-01'' (''info'' @ ''.log''))
     (path_join ''/srv/logs/2025-01-01''
        (''info'' @ ''.'' @
         show_nat (epochMillis (clock (demo_rename_fails\<lparr>faults := [Some ''EPERM: operation not permitted, rename'']\<rparr>))) @
         ''.log''))
     (demo_rename_fails\<lparr>faults := [Some ''EPERM: operation not permitted, rename'']\<rparr>) =
     (Inl ''EPERM: operation not permitted, rename'', demo_rename_fails\<lparr>faults := []\<rparr>)"
  by (simp add: fs_defs demo_rename_fails_def)

lemma demo_append:
  "appendFileSync (path_join ''/srv/logs/2025-01-01'' (''info'' @ ''.log'')) (''m'' @ [NL]) demo_append_fails =
     (Inl ''ENOSPC: no space left on device, write'', demo_append_fails\<lparr>faults := []\<rparr>)"
  "appendFileSync (path_join ''/srv/logs/2025-01-01'' (''info'' @ ''.log'')) (''m'' @ [NL]) demo_dir_sink =
     (Inl (''EISDIR: illegal operation on a directory, open '' @ quoted ''/srv/logs/2025-01-01/info.log''),
      demo_dir_sink)"
  by (simp_all add: fs_defs path_join_def demo_append_fails_def demo_dir_sink_def demo_day_def
        demo_world_def)

theorem write_failure_contained_witness:
  "statSync_size ''/srv/logs/2025-01-01/info.log'' demo_stat_fails =
     (Inl ''EACCES: permission denied, stat'', demo_stat_fails\<lparr>faults := []\<rparr>) \<and>
   fst (writeToFile demo_env ''info'' ''m'' demo_stat_fails) = Inr () \<and>
   stderr (snd (writeToFile demo_env ''info'' ''m'' demo_stat_fails)) =
     [''Failed to write log: EACCES: permission denied, stat''] \<and>
   appends (snd (writeToFile demo_env ''info'' ''m'' demo_stat_fails)) = [] \<and>
   fst (writeToFile demo_env ''info'' ''m'' demo_rename_fails) = Inr () \<and>
   stderr (snd (writeToFile demo_env ''info'' ''m'' demo_rename_fails)) =
     [''Failed to write log: EPERM: operation not permitted, rename''] \<and>
   appendFileSync ''/srv/logs/2025-01-01/info.log'' (''m'' @ [NL]) demo_append_fails =
     (Inl ''ENOSPC: no space left on device, write'', demo_append_fails\<lparr>faults := []\<rparr>) \<and>
   fst (writeToFile demo_env ''info'' ''m'' demo_append_fails) = Inr () \<and>
   stderr (snd (writeToFile demo_env ''info'' ''m'' demo_append_fails)) =
     [''Failed to write log: ENOSPC: no space left on device, write''] \<and>
   faults demo_dir_sink = [] \<and>
   writeToFile demo_env ''info'' ''m'' demo_dir_sink =
     (Inr (),
      demo_dir_sink\<lparr>stderr :=
        [''Failed to write log: EISDIR: illegal operation on a directory, open '' @
         quoted ''/srv/logs/2025-01-01/info.log'']\<rparr>) \<and>
   stderr (snd (writeToFile demo_env ''info'' ''m'' demo_faulty)) =
     [''Failed to write log: ENOSPC: no space left on device''] \<and>
   fst (Logger_record demo_env Error ''db'' (ErrorObject demo_error) no_options demo_append_fails) =
     Inl (ErrorObject demo_error) \<and>
   length (stdout (snd (Logger_record demo_env Error ''db'' (ErrorObject demo_error) no_options
      demo_append_fails))) = 1"
proof -
  note s = write_failure_contained [of demo_env "''info''" "''m''" demo_stat_fails Error "''db''"
      "ErrorObject demo_error" no_options]
  note r = write_failure_contained [of demo_env "''info''" "''m''" demo_rename_fails Error "''db''"
      "ErrorObject demo_error" no_options]
  note a = write_failure_contained [of demo_env "''info''" "''m''" demo_append_fails Error "''db''"
      "ErrorObject demo_error" no_options]
  note d = write_failure_contained [of demo_env "''info''" "''m''" demo_dir_sink Error "''db''"
      "ErrorObject demo_error" no_options]
  note f = write_failure_contained [of demo_env "''info''" "''m''" demo_faulty Error "''db''"
      "ErrorObject demo_error" no_options]
  have s1: "writeToFile demo_env ''info'' ''m'' demo_stat_fails =
      (Inr (), report_failure ''EACCES: permission denied, stat'' (demo_stat_fails\<lparr>faults := []\<rparr>))"
    by (rule s [THEN conjunct2, THEN conjunct2, THEN conjunct1, rule_format,
          OF demo_today(1) demo_exists(1) demo_stat(1)])
  have "fst (writeToFile_try demo_env ''info'' ''m'' demo_stat_fails) = Inl ''EACCES: permission denied, stat''"
    using demo_today(1) demo_exists(1) demo_stat(1) by (simp add: writeToFile_try_def io_defs Let_def)
  then have s2: "appends (snd (writeToFile demo_env ''info'' ''m'' demo_stat_fails)) = appends demo_stat_fails"
    using s [THEN conjunct2, THEN conjunct1] by simp
  have r1: "writeToFile demo_env ''info'' ''m'' demo_rename_fails =
      (Inr (), report_failure ''EPERM: operation not permitted, rename'' (demo_rename_fails\<lparr>faults := []\<rparr>))"
    by (rule r [THEN conjunct2, THEN conjunct2, THEN conjunct2, THEN conjunct1, rule_format,
          OF demo_today(2) demo_exists(2) demo_stat(2) _ demo_today(3) demo_rename]) simp
  have a1: "writeToFile demo_env ''info'' ''m'' demo_append_fails =
      (Inr (), report_failure ''ENOSPC: no space left on device, write'' (demo_append_fails\<lparr>faults := []\<rparr>))"
    by (rule a [THEN conjunct2, THEN conjunct2, THEN conjunct2, THEN conjunct2, THEN conjunct1,
          rule_format, OF demo_today(4) demo_exists(3) demo_append(1)])
  have d1: "writeToFile demo_env ''info'' ''m'' demo_dir_sink =
      (Inr (), report_failure
         (''EISDIR: illegal operation on a directory, open '' @ quoted ''/srv/logs/2025-01-01/info.log'')
         demo_dir_sink)"
    by (rule d [THEN conjunct2, THEN conjunct2, THEN conjunct2, THEN conjunct2, THEN conjunct2,
          THEN conjunct1, rule_format, OF demo_today(5) demo_exists(4) demo_stat(3) _ demo_append(2)])
       (simp add: MAX_LOG_SIZE_def)
  have f1: "writeToFile demo_env ''info'' ''m'' demo_faulty =
      (Inr (), report_failure ''ENOSPC: no space left on device'' (demo_faulty\<lparr>faults := []\<rparr>))"
    by (rule f [THEN conjunct2, THEN conjunct2, THEN conjunct2, THEN conjunct2, THEN conjunct2,
          THEN conjunct2, THEN conjunct2, THEN conjunct1, rule_format])
       (simp add: demo_faulty_def)
  have c: "fst (Logger_record demo_env Error ''db'' (ErrorObject demo_error) no_options demo_append_fails) =
      Inl (ErrorObject demo_error) \<and>
    length (stdout (snd (Logger_record demo_env Error ''db'' (ErrorObject demo_error) no_options
      demo_append_fails))) = 1"
    using a by (simp add: shouldLog_def rethrown_def no_options_def demo_env_def demo_append_fails_def
        demo_day_def demo_world_def)
  show ?thesis
    unfolding s1 s2 r1 a1 d1 f1
    using c demo_stat(1) demo_append(1)
    by (simp add: report_failure_def path_join_def)
       (simp add: demo_stat_fails_def demo_rename_fails_def demo_append_fails_def demo_dir_sink_def
          demo_faulty_def demo_day_def demo_full_def demo_over_def demo_world_def appends_def)
qed

subsection \<open>The concrete inputs, evaluated\<close>

lemma digit_chars:
  "digit_char 0 = CHR ''0''" "digit_char 1 = CHR ''1''" "digit_char 2 = CHR ''2''"
  "digit_char 3 = CHR ''3''" "digit_char 4 = CHR ''4''" "digit_char 5 = CHR ''5''"
  "digit_char 6 = CHR ''6''" "digit_char 7 = CHR ''7''" "digit_char 8 = CHR ''8''"
  "digit_char 9 = CHR ''9''" "digit_char (Suc 0) = CHR ''1''"
  by code_simp+

lemma replicate_small: "replicate 1 c = [c]" "replicate 2 c = [c, c]" "replicate 3 c = [c, c, c]"
  by (simp_all add: numeral_2_eq_2 numeral_3_eq_3)

lemma demo_timestamp: "timestamp demo_world = ''2025-01-01 10:00:00.000''"
  by (simp add: timestamp_def demo_world_def demo_date_def padStart0_def show_nat.simps digit_chars
        replicate_small)

lemma demo_upper:
  "toUpperCase e ''db'' = ''DB''" "toUpperCase e ''app'' = ''APP''"
  "toUpperCase e ''error'' = ''ERROR''" "toUpperCase e ''info'' = ''INFO''" "toUpperCase e ''all'' = ''ALL''"
  by code_simp+

lemma demo_stack_formatted:
  "formatStack (err_stack demo_error) False = NL # ''  '' @ arrow @ '' connect (/app/db.js:10:5)''"
  "formatStack (err_stack demo_error) True \<noteq> []"
  by code_simp+

lemma demo_context_formatted:
  "formatValue demo_env demo_context = ''{'' @ NL # ''  port: 5432'' @ NL # ''}''"
  by code_simp

lemma demo_error_message:
  "snd (messages demo_env Error ''db'' (ErrorObject demo_error) (demo_opts\<lparr>opt_trace := True\<rparr>) demo_world) =
     ''2025-01-01 10:00:00.000 | ERROR | DB [Error] | conn refused'' @ NL # ''  '' @ arrow @
     '' connect (/app/db.js:10:5)''"
  using demo_stack_formatted
  by (simp add: messages_def with_context_def with_error_tag_def with_stack_def extractErrorInfo_def
        demo_timestamp demo_upper Let_def)
     (simp add: demo_error_def)

lemma demo_modes:
  "production demo_prod" "\<not> production demo_env" "stdout demo_world = []" "faults demo_world = []"
  "dirs demo_world = {}" "appends demo_world = []"
  by (simp_all add: demo_prod_def demo_env_def demo_world_def appends_def)

subsection \<open>Re-raise, console echo and groups\<close>

lemma record_world:
  "snd (Logger_record e type layer err opts w) =
     (if shouldLog e type then console_log (colorize type (fst (messages e type layer err opts w))) else id)
       (write_both e type (snd (messages e type layer err opts w)) (count_entry type w))"
  by (simp add: record_unfold)

lemma log_file_clock: "clock w' = clock w \<Longrightarrow> log_file e w' t = log_file e w t"
  by (simp add: log_file_def day_dir_def)

lemma write_both_appends:
  assumes "faults w = []" and "log_file e w (sev_name t) \<notin> dirs w" and "log_file e w ''all'' \<notin> dirs w"
  shows "appends (write_both e t m w) =
           appends w @ [(log_file e w (sev_name t), m @ [NL]), (log_file e w ''all'', m @ [NL])]"
proof -
  define w1 where "w1 = snd (writeToFile e (sev_name t) m w)"
  have f1: "faults w1 = []" unfolding w1_def by (rule writeToFile_no_fault(1) [OF assms(1,2)])
  have c1: "clock w1 = clock w" unfolding w1_def by (rule writeToFile_frame_snd)
  have d1: "dirs w1 = (if existsSync (day_dir e w) w then dirs w else insert (day_dir e w) (dirs w))"
    unfolding w1_def by (rule writeToFile_no_fault(2) [OF assms(1,2)])
  have a1: "appends w1 = appends w @ [(log_file e w (sev_name t), m @ [NL])]"
    unfolding w1_def by (rule writeToFile_no_fault(4) [OF assms(1,2)])
  have l1: "log_file e w1 ''all'' = log_file e w ''all''" using c1 by (rule log_file_clock)
  have n1: "log_file e w1 ''all'' \<notin> dirs w1"
    unfolding l1 d1 using assms(3) log_file_neq_day_dir [of e w "''all''"] by simp
  have "appends (snd (writeToFile e ''all'' m w1)) = appends w1 @ [(log_file e w1 ''all'', m @ [NL])]"
    by (rule writeToFile_no_fault(4) [OF f1 n1])
  then show ?thesis unfolding write_both_def w1_def [symmetric] a1 l1 by simp
qed



lemma record_appends:
  assumes "faults w = []" and "log_file e w (sev_name t) \<notin> dirs w" and "log_file e w ''all'' \<notin> dirs w"
  shows "appends (snd (Logger_record e t layer p opts w)) =
           appends w @ [(log_file e w (sev_name t), snd (messages e t layer p opts w) @ [NL]),
                        (log_file e w ''all'', snd (messages e t layer p opts w) @ [NL])]"
proof -
  have "appends (snd (Logger_record e t layer p opts w)) =
          appends (write_both e t (snd (messages e t layer p opts w)) (count_entry t w))"
    by (simp add: record_world console_log_def appends_def)
  also have "\<dots> = appends (count_entry t w) @
      [(log_file e (count_entry t w) (sev_name t), snd (messages e t layer p opts w) @ [NL]),
       (log_file e (count_entry t w) ''all'', snd (messages e t layer p opts w) @ [NL])]"
    using assms by (intro write_both_appends) (simp_all add: count_entry_def log_file_def day_dir_def)
  finally show ?thesis by (simp add: count_entry_def log_file_def day_dir_def appends_def)
qed



lemma with_stack_opts:
  "opt_trace o1 = opt_trace o2 \<Longrightarrow> with_stack type info o1 msgs = with_stack type info o2 msgs"
  by (cases msgs) (simp add: with_stack_def)







lemma info_returns: "fst (Logger_info e layer p opts w) = Inr ()"
  by (simp add: Logger_info_def record_outcome)

lemma info_eq: "Logger_info e layer p opts w = (Inr (), snd (Logger_info e layer p opts w))"
  using info_returns [of e layer p opts w] by (simp add: prod_eq_iff)

lemma info_stats:
  "logStats (snd (Logger_info e layer p opts w)) Info = logStats w Info + 1"
  by (simp add: Logger_info_def record_stats)

lemma marker_messages:
  "messages e Info layer (Value (JStr s)) no_options w =
     (bold (timestamp w @ '' | INFO | '' @ toUpperCase e layer) @ '' | '' @ s,
      timestamp w @ '' | INFO | '' @ toUpperCase e layer @ '' | '' @ s)"
  by (simp add: messages_def with_context_def with_error_tag_def with_stack_def extractErrorInfo_def
        demo_upper Let_def no_options_def)

lemma info_stdout:
  "stdout (snd (Logger_info e layer (Value (JStr s)) no_options w)) =
     stdout w @ [ConsoleLog (colorize Info
       (bold (timestamp w @ '' | INFO | '' @ toUpperCase e layer) @ '' | '' @ s))]"
  by (simp add: Logger_info_def record_stdout shouldLog_def marker_messages)

lemma info_appends:
  assumes "faults w = []" and "log_file e w ''info'' \<notin> dirs w" and "log_file e w ''all'' \<notin> dirs w"
  shows "appends (snd (Logger_info e layer (Value (JStr s)) no_options w)) =
     appends w @
       [(log_file e w ''info'', (timestamp w @ '' | INFO | '' @ toUpperCase e layer @ '' | '' @ s) @ [NL]),
        (log_file e w ''all'', (timestamp w @ '' | INFO | '' @ toUpperCase e layer @ '' | '' @ s) @ [NL])]"
  using record_appends [of w e Info layer "Value (JStr s)" no_options] assms
  by (simp add: Logger_info_def marker_messages)

lemma write_both_no_fault:
  assumes "faults w = []" and "log_file e w (sev_name t) \<notin> dirs w" and "log_file e w ''all'' \<notin> dirs w"
  shows "faults (write_both e t m w) = []"
    and "dirs (write_both e t m w) \<subseteq> insert (day_dir e w) (dirs w)"
proof -
  define w1 where "w1 = snd (writeToFile e (sev_name t) m w)"
  have f1: "faults w1 = []" unfolding w1_def by (rule writeToFile_no_fault(1) [OF assms(1,2)])
  have c1: "clock w1 = clock w" unfolding w1_def by (rule writeToFile_frame_snd)
  have d1: "dirs w1 = (if existsSync (day_dir e w) w then dirs w else insert (day_dir e w) (dirs w))"
    unfolding w1_def by (rule writeToFile_no_fault(2) [OF assms(1,2)])
  have l1: "log_file e w1 ''all'' = log_file e w ''all''" using c1 by (rule log_file_clock)
  have n1: "log_file e w1 ''all'' \<notin> dirs w1"
    unfolding l1 d1 using assms(3) log_file_neq_day_dir [of e w "''all''"] by simp
  have dd: "day_dir e w1 = day_dir e w" using c1 by (simp add: day_dir_def)
  show "faults (write_both e t m w) = []"
    unfolding write_both_def w1_def [symmetric] by (rule writeToFile_no_fault(1) [OF f1 n1])
  have "dirs (snd (writeToFile e ''all'' m w1)) \<subseteq> insert (day_dir e w1) (dirs w1)"
    unfolding writeToFile_no_fault(2) [OF f1 n1] by auto
  then show "dirs (write_both e t m w) \<subseteq> insert (day_dir e w) (dirs w)"
    unfolding write_both_def w1_def [symmetric] dd d1 by (auto split: if_splits)
qed

lemma record_no_fault:
  assumes "faults w = []" and "log_file e w (sev_name t) \<notin> dirs w" and "log_file e w ''all'' \<notin> dirs w"
  shows "faults (snd (Logger_record e t layer p opts w)) = []"
    and "dirs (snd (Logger_record e t layer p opts w)) \<subseteq> insert (day_dir e w) (dirs w)"
proof -
  have a: "faults (count_entry t w) = []" "log_file e (count_entry t w) (sev_name t) \<notin> dirs (count_entry t w)"
    "log_file e (count_entry t w) ''all'' \<notin> dirs (count_entry t w)"
    using assms by (simp_all add: count_entry_def log_file_def day_dir_def)
  show "faults (snd (Logger_record e t layer p opts w)) = []"
    using write_both_no_fault(1) [OF a] by (simp add: record_world console_log_def)
  show "dirs (snd (Logger_record e t layer p opts w)) \<subseteq> insert (day_dir e w) (dirs w)"
    using write_both_no_fault(2) [OF a, of "snd (messages e t layer p opts w)"]
    by (simp add: record_world console_log_def count_entry_def day_dir_def)
qed

text \<open>
  C7. \<open>group(layer, title, callback)\<close> records the start marker at severity \<open>info\<close>,
  runs the callback on what that leaves, and records the end marker at severity \<open>info\<close>
  on what the callback leaves, whether the callback returned or threw; \<open>group\<close> ends as
  the callback ended. Recording a marker counts it, prints its line on the console, and,
  when no call of the file system fails, appends its line to \<open>info.log\<close> and to
  \<open>all.log\<close>: the counter \<open>info\<close> is one more after the start marker and one more again
  after the end marker, the start line is the last line printed when the callback
  starts, and the end line is printed after all the callback printed.
\<close>

theorem group_markers:
  "Logger_group e layer title callback w =
     (fst (callback (snd (Logger_info e layer (start_marker title) no_options w))),
      snd (Logger_info e layer (end_marker title) no_options
             (snd (callback (snd (Logger_info e layer (start_marker title) no_options w)))))) \<and>
   logStats (snd (Logger_info e layer (start_marker title) no_options w)) Info = logStats w Info + 1 \<and>
   logStats (snd (Logger_group e layer title callback w)) Info =
     logStats (snd (callback (snd (Logger_info e layer (start_marker title) no_options w)))) Info + 1 \<and>
   stdout (snd (Logger_info e layer (start_marker title) no_options w)) =
     stdout w @ [ConsoleLog (colorize Info
       (bold (timestamp w @ '' | INFO | '' @ toUpperCase e layer) @ '' | '' @
        rule4 @ '' '' @ title @ '' '' @ rule4))] \<and>
   (faults w = [] \<and> log_file e w ''info'' \<notin> dirs w \<and> log_file e w ''all'' \<notin> dirs w \<longrightarrow>
      appends (snd (Logger_info e layer (start_marker title) no_options w)) =
        appends w @
          [(log_file e w ''info'',
            (timestamp w @ '' | INFO | '' @ toUpperCase e layer @ '' | '' @
             rule4 @ '' '' @ title @ '' '' @ rule4) @ [NL]),
           (log_file e w ''all'',
            (timestamp w @ '' | INFO | '' @ toUpperCase e layer @ '' | '' @
             rule4 @ '' '' @ title @ '' '' @ rule4) @ [NL])]) \<and>
   (\<forall>w2. w2 = snd (callback (snd (Logger_info e layer (start_marker title) no_options w))) \<longrightarrow>
      stdout (snd (Logger_group e layer title callback w)) =
        stdout w2 @ [ConsoleLog (colorize Info
          (bold (timestamp w2 @ '' | INFO | '' @ toUpperCase e layer) @ '' | '' @
           rule4 @ '' End '' @ title @ '' '' @ rule4))] \<and>
      (faults w2 = [] \<and> log_file e w2 ''info'' \<notin> dirs w2 \<and> log_file e w2 ''all'' \<notin> dirs w2 \<longrightarrow>
         appends (snd (Logger_group e layer title callback w)) =
           appends w2 @
             [(log_file e w2 ''info'',
               (timestamp w2 @ '' | INFO | '' @ toUpperCase e layer @ '' | '' @
                rule4 @ '' End '' @ title @ '' '' @ rule4) @ [NL]),
              (log_file e w2 ''all'',
               (timestamp w2 @ '' | INFO | '' @ toUpperCase e layer @ '' | '' @
                rule4 @ '' End '' @ title @ '' '' @ rule4) @ [NL])]))"
proof -
  have g: "Logger_group e layer title callback w =
     (fst (callback (snd (Logger_info e layer (start_marker title) no_options w))),
      snd (Logger_info e layer (end_marker title) no_options
             (snd (callback (snd (Logger_info e layer (start_marker title) no_options w))))))"
    unfolding Logger_group_def io_bind_def io_finally_def
    by (subst info_eq, simp, subst info_eq, simp split: prod.splits)
  show ?thesis
    unfolding g
    by (intro conjI allI impI)
       (simp_all add: info_stats start_marker_def end_marker_def info_stdout info_appends)
qed

lemma demo_marker_world:
  "faults (snd (Logger_info demo_env ''db'' (start_marker ''migrate'') no_options demo_world)) = []"
  "log_file demo_env (snd (Logger_info demo_env ''db'' (start_marker ''migrate'') no_options demo_world)) t \<notin>
     dirs (snd (Logger_info demo_env ''db'' (start_marker ''migrate'') no_options demo_world))"
  "timestamp (snd (Logger_info demo_env ''db'' (start_marker ''migrate'') no_options demo_world)) =
     ''2025-01-01 10:00:00.000''"
  "log_file demo_env (snd (Logger_info demo_env ''db'' (start_marker ''migrate'') no_options demo_world)) t =
     ''/srv/logs/2025-01-01/'' @ t @ ''.log''"
proof -
  define w1 where "w1 = snd (Logger_info demo_env ''db'' (start_marker ''migrate'') no_options demo_world)"
  have h: "faults demo_world = []" "log_file demo_env demo_world (sev_name Info) \<notin> dirs demo_world"
    "log_file demo_env demo_world ''all'' \<notin> dirs demo_world"
    by (simp_all add: demo_modes)
  have c: "clock w1 = clock demo_world"
    unfolding w1_def Logger_info_def record_world
    by (simp add: console_log_def write_both_frame count_entry_def shouldLog_def)
  show "faults w1 = []" unfolding w1_def Logger_info_def by (rule record_no_fault(1) [OF h])
  have "dirs w1 \<subseteq> insert (day_dir demo_env demo_world) (dirs demo_world)"
    unfolding w1_def Logger_info_def by (rule record_no_fault(2) [OF h])
  then have d: "dirs w1 \<subseteq> {''/srv/logs/2025-01-01''}" by (simp add: demo_paths demo_modes)
  show l: "log_file demo_env w1 t = ''/srv/logs/2025-01-01/'' @ t @ ''.log''"
    using log_file_clock [OF c, of demo_env t] by (simp add: demo_paths)
  show "log_file demo_env w1 t \<notin> dirs w1" unfolding l using d by auto
  show "timestamp w1 = ''2025-01-01 10:00:00.000''"
    using timestamp_clock [OF c] by (simp add: demo_timestamp)
qed

theorem group_markers_witness:
  "fst (Logger_group demo_env ''db'' ''migrate'' demo_callback demo_world) = Inl (ErrorObject demo_error) \<and>
   logStats (snd (Logger_group demo_env ''db'' ''migrate'' demo_callback demo_world)) Info = 2 \<and>
   stdout (snd (Logger_group demo_env ''db'' ''migrate'' demo_callback demo_world)) =
     [ConsoleLog (colorize Info (bold ''2025-01-01 10:00:00.000 | INFO | DB'' @ '' | '' @
        rule4 @ '' migrate '' @ rule4)),
      ConsoleLog (colorize Info (bold ''2025-01-01 10:00:00.000 | INFO | DB'' @ '' | '' @
        rule4 @ '' End migrate '' @ rule4))] \<and>
   appends (snd (Logger_group demo_env ''db'' ''migrate'' demo_callback demo_world)) =
     [(''/srv/logs/2025-01-01/info.log'',
       ''2025-01-01 10:00:00.000 | INFO | DB | '' @ rule4 @ '' migrate '' @ rule4 @ [NL]),
      (''/srv/logs/2025-01-01/all.log'',
       ''2025-01-01 10:00:00.000 | INFO | DB | '' @ rule4 @ '' migrate '' @ rule4 @ [NL]),
      (''/srv/logs/2025-01-01/info.log'',
       ''2025-01-01 10:00:00.000 | INFO | DB | '' @ rule4 @ '' End migrate '' @ rule4 @ [NL]),
      (''/srv/logs/2025-01-01/all.log'',
       ''2025-01-01 10:00:00.000 | INFO | DB | '' @ rule4 @ '' End migrate '' @ rule4 @ [NL])]"
proof -
  note g = group_markers [of demo_env "''db''" "''migrate''" demo_callback demo_world]
  define w1 where "w1 = snd (Logger_info demo_env ''db'' (start_marker ''migrate'') no_options demo_world)"
  have cb: "snd (demo_callback w1) = w1" "fst (demo_callback w1) = Inl (ErrorObject demo_error)"
    by (simp_all add: demo_callback_def)
  have h: "faults demo_world = [] \<and> log_file demo_env demo_world ''info'' \<notin> dirs demo_world \<and>
      log_file demo_env demo_world ''all'' \<notin> dirs demo_world"
    by (simp add: demo_modes)
  have h1: "faults w1 = [] \<and> log_file demo_env w1 ''info'' \<notin> dirs w1 \<and> log_file demo_env w1 ''all'' \<notin> dirs w1"
    unfolding w1_def using demo_marker_world(1,2) by blast
  have o: "fst (Logger_group demo_env ''db'' ''migrate'' demo_callback demo_world) = Inl (ErrorObject demo_error)"
    using g [THEN conjunct1] by (simp add: demo_callback_def)
  have n: "logStats (snd (Logger_group demo_env ''db'' ''migrate'' demo_callback demo_world)) Info = 2"
    using g [THEN conjunct2, THEN conjunct1] g [THEN conjunct2, THEN conjunct2, THEN conjunct1]
    by (simp add: demo_callback_def) (simp add: demo_world_def)
  have s1: "stdout w1 = [ConsoleLog (colorize Info (bold ''2025-01-01 10:00:00.000 | INFO | DB'' @ '' | '' @
        rule4 @ '' migrate '' @ rule4))]"
    using g [THEN conjunct2, THEN conjunct2, THEN conjunct2, THEN conjunct1]
    by (simp add: w1_def demo_modes demo_timestamp demo_upper)
  have a1: "appends w1 =
     [(''/srv/logs/2025-01-01/info.log'',
       ''2025-01-01 10:00:00.000 | INFO | DB | '' @ rule4 @ '' migrate '' @ rule4 @ [NL]),
      (''/srv/logs/2025-01-01/all.log'',
       ''2025-01-01 10:00:00.000 | INFO | DB | '' @ rule4 @ '' migrate '' @ rule4 @ [NL])]"
    using g [THEN conjunct2, THEN conjunct2, THEN conjunct2, THEN conjunct2, THEN conjunct1,
        rule_format, OF h]
    by (simp add: w1_def demo_modes demo_timestamp demo_upper demo_paths)
  note e = g [THEN conjunct2, THEN conjunct2, THEN conjunct2, THEN conjunct2, THEN conjunct2,
      rule_format, of w1, unfolded w1_def [symmetric] cb, OF refl]
  have s2: "stdout (snd (Logger_group demo_env ''db'' ''migrate'' demo_callback demo_world)) =
     [ConsoleLog (colorize Info (bold ''2025-01-01 10:00:00.000 | INFO | DB'' @ '' | '' @
        rule4 @ '' migrate '' @ rule4)),
      ConsoleLog (colorize Info (bold ''2025-01-01 10:00:00.000 | INFO | DB'' @ '' | '' @
        rule4 @ '' End migrate '' @ rule4))]"
    using e [THEN conjunct1] demo_marker_world(3) by (simp add: s1 w1_def [symmetric] demo_upper)
  have a2: "appends (snd (Logger_group demo_env ''db'' ''migrate'' demo_callback demo_world)) =
     [(''/srv/logs/2025-01-01/info.log'',
       ''2025-01-01 10:00:00.000 | INFO | DB | '' @ rule4 @ '' migrate '' @ rule4 @ [NL]),
      (''/srv/logs/2025-01-01/all.log'',
       ''2025-01-01 10:00:00.000 | INFO | DB | '' @ rule4 @ '' migrate '' @ rule4 @ [NL]),
      (''/srv/logs/2025-01-01/info.log'',
       ''2025-01-01 10:00:00.000 | INFO | DB | '' @ rule4 @ '' End migrate '' @ rule4 @ [NL]),
      (''/srv/logs/2025-01-01/all.log'',
       ''2025-01-01 10:00:00.000 | INFO | DB | '' @ rule4 @ '' End migrate '' @ rule4 @ [NL])]"
    using e [THEN conjunct2, rule_format, OF h1] demo_marker_world(3,4)
    by (simp add: a1 w1_def [symmetric] demo_upper)
  from o n s2 a2 show ?thesis by (intro conjI)
qed

subsection \<open>The context of an entry\<close>

lemma demo_info_message:
  "snd (messages demo_env Info ''db'' (Value (JStr ''connected'')) demo_opts demo_world) =
     ''2025-01-01 10:00:00.000 | INFO | DB | connected'' @ NL # ''Context: {'' @ NL # ''  port: 5432'' @ NL # ''}''"
  using demo_context_formatted
  by (simp add: messages_def with_context_def with_error_tag_def with_stack_def extractErrorInfo_def
        demo_timestamp demo_upper Let_def)
     (simp add: demo_opts_def demo_context_def)

lemma context_kept_otherwise:
  assumes "truthy (opt_context opts)"
    and "type \<noteq> Error \<or> info_name (extractErrorInfo err) = None \<or> info_name (extractErrorInfo err) = Some []"
  shows "\<exists>pre post. snd (messages e type layer err opts w) =
           pre @ ''Context: '' @ formatValue e (opt_context opts) @ post"
    and "\<exists>pre post. fst (messages e type layer err opts w) =
           pre @ dim ''Context:'' @ '' '' @ formatValue e (opt_context opts) @ post"
proof -
  define info where "info = extractErrorInfo err"
  define h where "h = timestamp w @ '' | '' @ toUpperCase e (sev_name type) @ '' | '' @ toUpperCase e layer"
  define c where "c = formatValue e (opt_context opts)"
  define cm where "cm = (bold h @ '' | '' @ info_message info) @ NL # dim ''Context:'' @ '' '' @ c"
  define fm where "fm = (h @ '' | '' @ info_message info) @ NL # ''Context: '' @ c"
  have wc: "with_context e opts (bold h @ '' | '' @ info_message info, h @ '' | '' @ info_message info) = (cm, fm)"
    using assms(1) by (simp add: with_context_def Let_def cm_def fm_def c_def)
  have wt: "with_error_tag type info h (bold h) (cm, fm) = (cm, fm)"
    using assms(2) by (auto simp: with_error_tag_def info_def split: option.splits)
  have m: "messages e type layer err opts w = with_stack type info opts (cm, fm)"
    unfolding messages_def Let_def info_def [symmetric] h_def [symmetric] wc wt by (rule refl)
  obtain s1 s2 where ws: "with_stack type info opts (cm, fm) = (cm @ s1, fm @ s2)"
  proof (cases "info_stack info \<noteq> None \<and> info_stack info \<noteq> Some [] \<and> (type = Error \<or> opt_trace opts)
      \<and> formatStack (info_stack info) True \<noteq> []")
    case True
    then have "with_stack type info opts (cm, fm) =
        (cm @ colorize type (formatStack (info_stack info) True), fm @ formatStack (info_stack info) False)"
      by (simp add: with_stack_def Let_def)
    then show ?thesis using that by blast
  next
    case False
    then have "with_stack type info opts (cm, fm) = (cm @ [], fm @ [])"
      by (auto simp: with_stack_def Let_def)
    then show ?thesis using that by blast
  qed
  have "snd (messages e type layer err opts w) = fm @ s2" by (simp add: m ws)
  then have "snd (messages e type layer err opts w) =
      (h @ '' | '' @ info_message info @ [NL]) @ ''Context: '' @ formatValue e (opt_context opts) @ s2"
    by (simp add: fm_def c_def)
  then show "\<exists>pre post. snd (messages e type layer err opts w) =
           pre @ ''Context: '' @ formatValue e (opt_context opts) @ post" by blast
  have "fst (messages e type layer err opts w) = cm @ s1" by (simp add: m ws)
  then have "fst (messages e type layer err opts w) =
      (bold h @ '' | '' @ info_message info @ [NL]) @ dim ''Context:'' @ '' '' @ formatValue e (opt_context opts) @ s1"
    by (simp add: cm_def c_def)
  then show "\<exists>pre post. fst (messages e type layer err opts w) =
           pre @ dim ''Context:'' @ '' '' @ formatValue e (opt_context opts) @ post" by blast
qed

lemma with_error_tag_overwrites:
  "info_name info = Some n \<Longrightarrow> n \<noteq> [] \<Longrightarrow>
   with_error_tag Error info h hb msgs = with_error_tag Error info h hb msgs'"
  by (simp add: with_error_tag_def)

lemma error_messages_any_context:
  assumes "err_name x \<noteq> []" and "opt_trace o1 = opt_trace o2"
  shows "messages e Error layer (ErrorObject x) o1 w = messages e Error layer (ErrorObject x) o2 w"
proof -
  have n: "info_name (extractErrorInfo (ErrorObject x)) = Some (err_name x)"
    by (simp add: extractErrorInfo_def)
  show ?thesis
    unfolding messages_def Let_def with_stack_opts [OF assms(2)]
    by (subst with_error_tag_overwrites [OF n assms(1)]) (rule refl)
qed

text \<open>
  C3 fails on the code. For an entry of severity \<open>error\<close> whose payload has a name,
  \<open>record\<close> builds both messages anew after it has appended the context, so the call
  does the same whatever context is supplied: the rendered context is in neither
  message.
\<close>

theorem error_context_dropped:
  assumes "err_name x \<noteq> []"
  shows "Logger_error e layer (ErrorObject x) (opts\<lparr>opt_context := c\<rparr>) w =
         Logger_error e layer (ErrorObject x) opts w"
  using error_messages_any_context [OF assms, of "opts\<lparr>opt_context := c, opt_trace := True\<rparr>"
      "opts\<lparr>opt_trace := True\<rparr>" e layer w]
  by (simp add: Logger_error_def record_unfold)

theorem error_context_dropped_witness:
  "err_name demo_error \<noteq> [] \<and> truthy demo_context \<and>
   Logger_error demo_env ''db'' (ErrorObject demo_error)
       (no_options\<lparr>opt_noThrow := True, opt_context := demo_context\<rparr>) demo_world =
     Logger_error demo_env ''db'' (ErrorObject demo_error) (no_options\<lparr>opt_noThrow := True\<rparr>) demo_world \<and>
   snd (messages demo_env Error ''db'' (ErrorObject demo_error) (demo_opts\<lparr>opt_trace := True\<rparr>) demo_world) =
     ''2025-01-01 10:00:00.000 | ERROR | DB [Error] | conn refused'' @ NL # ''  '' @ arrow @
     '' connect (/app/db.js:10:5)''"
  using error_context_dropped [of demo_error demo_env "''db''" demo_context
      "no_options\<lparr>opt_noThrow := True\<rparr>" demo_world]
  by (simp add: demo_error_message) (simp add: demo_error_def demo_context_def)

subsection \<open>The writes of an entry, and tables\<close>




text \<open>
  C9. For a non-empty array that \<open>JSON.stringify\<close> serialises (one that holds no
  \<open>BigInt\<close>), \<open>table\<close> returns, prints the table, and does what \<open>writeToFile\<close> does
  with the sink \<open>log\<close> and the timestamped serialisation: when no call of the file
  system fails, one append of that text and a newline to \<open>log.log\<close>. For an empty array
  and for a value that is not an array it changes nothing. For a non-empty array that
  \<open>JSON.stringify\<close> rejects, the table is printed and \<open>table\<close> throws the \<open>TypeError\<close>
  of \<open>JSON.stringify\<close>: nothing else has changed, so nothing is written to the sink and
  nothing is reported on the error stream.
\<close>

theorem table_output:
  "(\<forall>xs. data = JArr xs \<and> xs \<noteq> [] \<and> \<not> has_bigint data \<longrightarrow>
      fst (Logger_table e layer data w) = Inr () \<and>
      stdout (snd (Logger_table e layer data w)) = stdout w @ [ConsoleTable data] \<and>
      snd (Logger_table e layer data w) =
        snd (writeToFile e ''log''
               (timestamp w @ '' | TABLE | '' @ toUpperCase e layer @ NL # json_text e data)
               (w\<lparr>stdout := stdout w @ [ConsoleTable data]\<rparr>)) \<and>
      (faults w = [] \<and> log_file e w ''log'' \<notin> dirs w \<longrightarrow>
         appends (snd (Logger_table e layer data w)) =
           appends w @ [(log_file e w ''log'',
                         (timestamp w @ '' | TABLE | '' @ toUpperCase e layer @ NL # json_text e data) @ [NL])])) \<and>
   (\<forall>xs err. data = JArr xs \<and> xs \<noteq> [] \<and> JSON_stringify e data = Inl err \<longrightarrow>
      Logger_table e layer data w = (Inl err, w\<lparr>stdout := stdout w @ [ConsoleTable data]\<rparr>)) \<and>
   (\<forall>xs. data = JArr xs \<and> xs \<noteq> [] \<and> has_bigint data \<longrightarrow>
      Logger_table e layer data w =
        (Inl (ErrorObject \<lparr>err_message = ''Do not know how to serialize a BigInt'', err_name = ''TypeError'',
                err_stack = captureStack e ''Do not know how to serialize a BigInt'',
                err_code = JUndefined\<rparr>),
         w\<lparr>stdout := stdout w @ [ConsoleTable data]\<rparr>) \<and>
      appends (snd (Logger_table e layer data w)) = appends w \<and>
      stderr (snd (Logger_table e layer data w)) = stderr w) \<and>
   (data = JArr [] \<or> (\<forall>xs. data \<noteq> JArr xs) \<longrightarrow> Logger_table e layer data w = (Inr (), w))"
proof (intro conjI allI impI)
  fix xs
  assume a: "data = JArr xs \<and> xs \<noteq> [] \<and> \<not> has_bigint data"
  define w' where "w' = w\<lparr>stdout := stdout w @ [ConsoleTable data]\<rparr>"
  define ln where "ln = timestamp w @ '' | TABLE | '' @ toUpperCase e layer @ NL # json_text e data"
  have ts: "timestamp w' = timestamp w" by (rule timestamp_clock) (simp add: w'_def)
  have t: "Logger_table e layer data w = writeToFile e ''log'' ln w'"
    using a by (auto simp: Logger_table_def JSON_stringify_def Let_def w'_def ln_def timestamp_def)
  show "fst (Logger_table e layer data w) = Inr ()" unfolding t by (rule writeToFile_returns)
  show "stdout (snd (Logger_table e layer data w)) = stdout w @ [ConsoleTable data]"
    unfolding t by (simp add: writeToFile_frame_snd w'_def)
  show "snd (Logger_table e layer data w) =
        snd (writeToFile e ''log''
               (timestamp w @ '' | TABLE | '' @ toUpperCase e layer @ NL # json_text e data)
               (w\<lparr>stdout := stdout w @ [ConsoleTable data]\<rparr>))"
    unfolding t ln_def w'_def by (rule refl)
  assume f: "faults w = [] \<and> log_file e w ''log'' \<notin> dirs w"
  have "appends (snd (writeToFile e ''log'' ln w')) = appends w' @ [(log_file e w' ''log'', ln @ [NL])]"
    using f by (intro writeToFile_no_fault(4)) (simp_all add: w'_def log_file_def day_dir_def)
  then show "appends (snd (Logger_table e layer data w)) =
           appends w @ [(log_file e w ''log'',
                         (timestamp w @ '' | TABLE | '' @ toUpperCase e layer @ NL # json_text e data) @ [NL])]"
    unfolding t ln_def [symmetric] by (simp add: w'_def log_file_def day_dir_def appends_def)
next
  fix xs err
  assume "data = JArr xs \<and> xs \<noteq> [] \<and> JSON_stringify e data = Inl err"
  then show "Logger_table e layer data w = (Inl err, w\<lparr>stdout := stdout w @ [ConsoleTable data]\<rparr>)"
    by (auto simp: Logger_table_def Let_def)
next
  fix xs
  assume a: "data = JArr xs \<and> xs \<noteq> [] \<and> has_bigint data"
  then have j: "JSON_stringify e (JArr xs) =
      Inl (ErrorObject \<lparr>err_message = ''Do not know how to serialize a BigInt'', err_name = ''TypeError'',
                err_stack = captureStack e ''Do not know how to serialize a BigInt'',
                err_code = JUndefined\<rparr>)"
    by (auto simp: JSON_stringify_def)
  show t: "Logger_table e layer data w =
        (Inl (ErrorObject \<lparr>err_message = ''Do not know how to serialize a BigInt'', err_name = ''TypeError'',
                err_stack = captureStack e ''Do not know how to serialize a BigInt'',
                err_code = JUndefined\<rparr>),
         w\<lparr>stdout := stdout w @ [ConsoleTable data]\<rparr>)"
    using a by (simp add: Logger_table_def Let_def j)
  show "appends (snd (Logger_table e layer data w)) = appends w" unfolding t by (simp add: appends_def)
  show "stderr (snd (Logger_table e layer data w)) = stderr w" unfolding t by simp
next
  assume "data = JArr [] \<or> (\<forall>xs. data \<noteq> JArr xs)"
  then show "Logger_table e layer data w = (Inr (), w)"
    by (cases data) (auto simp: Logger_table_def io_return_def)
qed

lemma demo_json:
  "json_text demo_env (JArr [JNum 1, JNum 2]) = ''['' @ NL # ''  1,'' @ NL # ''  2'' @ NL # '']''"
  by (simp add: demo_env_def show_int_def show_nat.simps digit_chars)

theorem table_output_witness:
  "\<not> has_bigint (JArr [JNum 1, JNum 2]) \<and> faults demo_world = [] \<and>
   log_file demo_env demo_world ''log'' \<notin> dirs demo_world \<and>
   stdout (snd (Logger_table demo_env ''db'' (JArr [JNum 1, JNum 2]) demo_world)) =
     [ConsoleTable (JArr [JNum 1, JNum 2])] \<and>
   appends (snd (Logger_table demo_env ''db'' (JArr [JNum 1, JNum 2]) demo_world)) =
     [(''/srv/logs/2025-01-01/log.log'',
       ''2025-01-01 10:00:00.000 | TABLE | DB'' @ NL # ''['' @ NL # ''  1,'' @ NL # ''  2'' @ NL # '']'' @ [NL])] \<and>
   Logger_table demo_env ''db'' (JArr []) demo_world = (Inr (), demo_world) \<and>
   Logger_table demo_env ''db'' (JStr ''rows'') demo_world = (Inr (), demo_world) \<and>
   has_bigint (JArr [JBigInt 1]) \<and>
   fst (Logger_table demo_env ''db'' (JArr [JBigInt 1]) demo_world) =
     Inl (ErrorObject \<lparr>err_message = ''Do not know how to serialize a BigInt'', err_name = ''TypeError'',
            err_stack = Some (''Error: Do not know how to serialize a BigInt'' @ NL #
                              ''    at main (/app/main.js:1:1)''),
            err_code = JUndefined\<rparr>) \<and>
   stdout (snd (Logger_table demo_env ''db'' (JArr [JBigInt 1]) demo_world)) =
     [ConsoleTable (JArr [JBigInt 1])] \<and>
   appends (snd (Logger_table demo_env ''db'' (JArr [JBigInt 1]) demo_world)) = [] \<and>
   stderr (snd (Logger_table demo_env ''db'' (JArr [JBigInt 1]) demo_world)) = []"
proof -
  have h: "JArr [JNum 1, JNum 2] = JArr [JNum 1, JNum 2] \<and> [JNum 1, JNum 2] \<noteq> [] \<and>
      \<not> has_bigint (JArr [JNum 1, JNum 2])"
    by simp
  have f: "faults demo_world = [] \<and> log_file demo_env demo_world ''log'' \<notin> dirs demo_world"
    by (simp add: demo_modes)
  have b: "JArr [JBigInt 1] = JArr [JBigInt 1] \<and> [JBigInt 1] \<noteq> [] \<and> has_bigint (JArr [JBigInt 1])"
    by simp
  note t = table_output [of "JArr [JNum 1, JNum 2]" demo_env "''db''" demo_world,
      THEN conjunct1, rule_format, OF h]
  note u = table_output [of "JArr [JBigInt 1]" demo_env "''db''" demo_world,
      THEN conjunct2, THEN conjunct2, THEN conjunct1, rule_format, OF b]
  have "stdout (snd (Logger_table demo_env ''db'' (JArr [JNum 1, JNum 2]) demo_world)) =
     [ConsoleTable (JArr [JNum 1, JNum 2])]"
    using t [THEN conjunct2, THEN conjunct1] by (simp add: demo_modes)
  moreover have "appends (snd (Logger_table demo_env ''db'' (JArr [JNum 1, JNum 2]) demo_world)) =
     [(''/srv/logs/2025-01-01/log.log'',
       ''2025-01-01 10:00:00.000 | TABLE | DB'' @ NL # ''['' @ NL # ''  1,'' @ NL # ''  2'' @ NL # '']'' @ [NL])]"
    using t [THEN conjunct2, THEN conjunct2, THEN conjunct2, rule_format, OF f]
    by (simp add: demo_modes demo_paths demo_timestamp demo_upper demo_json)
  moreover have "Logger_table demo_env ''db'' (JArr []) demo_world = (Inr (), demo_world)"
    using table_output [of "JArr []" demo_env "''db''" demo_world] by simp
  moreover have "Logger_table demo_env ''db'' (JStr ''rows'') demo_world = (Inr (), demo_world)"
    using table_output [of "JStr ''rows''" demo_env "''db''" demo_world] by simp
  moreover have "fst (Logger_table demo_env ''db'' (JArr [JBigInt 1]) demo_world) =
     Inl (ErrorObject \<lparr>err_message = ''Do not know how to serialize a BigInt'', err_name = ''TypeError'',
            err_stack = Some (''Error: Do not know how to serialize a BigInt'' @ NL #
                              ''    at main (/app/main.js:1:1)''),
            err_code = JUndefined\<rparr>)"
    using u [THEN conjunct1] by (simp add: demo_env_def)
  moreover have "stdout (snd (Logger_table demo_env ''db'' (JArr [JBigInt 1]) demo_world)) =
     [ConsoleTable (JArr [JBigInt 1])]"
    using u [THEN conjunct1] by (simp add: demo_modes)
  moreover have "appends (snd (Logger_table demo_env ''db'' (JArr [JBigInt 1]) demo_world)) = []"
    using u [THEN conjunct2, THEN conjunct1] by (simp add: demo_modes)
  moreover have "stderr (snd (Logger_table demo_env ''db'' (JArr [JBigInt 1]) demo_world)) = []"
    using u [THEN conjunct2, THEN conjunct2] by (simp add: demo_world_def)
  ultimately show ?thesis using h f b by simp
qed

end
